theory Spec2Isabelle
  imports Complex_Main "HOL-Library.Log_Nat"
begin

section \<open>The auction store of \<open>src/lib/db.ts\<close>\<close>

text \<open>
  The model follows \<open>src/lib/db.ts\<close> and the type declarations of \<open>lib/types\<close>.

  \<^item> A JavaScript \<open>Map<string, T>\<close> is a partial function \<open>string \<rightharpoonup> T\<close>.
  \<^item> The objects held by the collections are mutated in place by the source. Every
    object lives under exactly one key of its collection (players and teams are
    inserted once at seeding, an auction is constructed by \<open>createAuction\<close> and
    inserted under its own id), so an in-place mutation is an update of the collection
    at that key, and a reference to a player object is the key of that object in
    \<open>players\<close>. The field \<open>auction.player\<close> and the elements of \<open>team.players\<close>
    are such references: the source stores the very object of the players collection
    there, not a copy.
  \<^item> A \<open>number\<close> of the source is an IEEE 754 double. The model carries the exact
    rational value of a finite double. Comparisons are exact, and the result of an
    arithmetic operation is the exact result rounded to the nearest double, ties to even
    (\<open>number_sub\<close> for the subtraction of \<open>completeAuction\<close>, the one arithmetic
    operation of the three store operations; \<open>number_add\<close> for sums). NaN, the
    infinities and overflow are outside the model.
  \<^item> \<open>Date.now()\<close> is an input of every operation (\<open>now\<close>, in milliseconds); the
    readings inside one synchronous operation are taken to be one reading.
  \<^item> Every operation runs to completion before the next one starts: \<open>createAuction\<close>
    and \<open>completeAuction\<close> are synchronous, and the body of the asynchronous
    \<open>placeBid\<close> contains no \<open>await\<close>.
  \<^item> Fields that only feed the presentation layer are left out: \<open>logo\<close>, \<open>avatar\<close>,
    \<open>nationality\<close>, \<open>age\<close> and the \<open>message\<close> text of an activity.
  \<^item> The fields \<open>id\<close>, \<open>name\<close>, \<open>status\<close>, \<open>playerId\<close>, \<open>teamId\<close>,
    \<open>timestamp\<close>, \<open>type\<close> and \<open>amount\<close> occur in several interfaces of the source;
    here they carry the name of their record in front (\<open>team_id\<close>, \<open>player_status\<close>,
    \<open>bid_teamId\<close>, \<open>act_type\<close>). \<open>team_players\<close> is the field \<open>players\<close> of a
    team, its roster.
\<close>

datatype PlayerRole = Batsman | Bowler | All_Rounder | Wicket_Keeper

datatype PlayerStatus = Unsold | Live | Sold

datatype AuctionStatus = upcoming | live | completed

datatype ActivityType = Act_bid | Act_win | Act_auction_start | Act_auction_end

record Player =
  player_id :: string
  player_name :: string
  role :: PlayerRole
  basePrice :: rat
  player_status :: PlayerStatus
  soldPrice :: "rat option"
  player_teamId :: "string option"

record Team =
  team_id :: string
  team_name :: string
  shortName :: string
  totalPurse :: rat
  remainingPurse :: rat
  maxPlayers :: nat
  team_players :: "string list"

record Bid =
  bid_id :: string
  bid_auctionId :: string
  bid_playerId :: string
  bid_teamId :: string
  teamName :: string
  amount :: rat
  bid_timestamp :: nat

record Auction =
  auction_id :: string
  auction_playerId :: string
  auction_player :: string
  currentBid :: rat
  currentBidder :: "string option"
  bids :: "Bid list"
  auction_status :: AuctionStatus
  startTime :: nat
  endTime :: "nat option"
  timerDuration :: rat

record Activity =
  act_id :: string
  act_type :: ActivityType
  act_timestamp :: nat
  act_teamId :: "string option"
  act_playerId :: "string option"
  act_amount :: "rat option"

record store =
  teams :: "string \<rightharpoonup> Team"
  players :: "string \<rightharpoonup> Player"
  auctions :: "string \<rightharpoonup> Auction"
  activities :: "Activity list"
  bidLocks :: "string \<rightharpoonup> bool"

subsection \<open>Numbers\<close>

text \<open>
  \<open>pow2 e\<close> is the power of two with exponent \<open>e\<close>. \<open>binary_exponent x\<close> is the
  exponent \<open>e\<close> with \<open>pow2 e \<le> \<bar>x\<bar> < pow2 (e + 1)\<close>, for \<open>x\<close> other than 0: with
  \<open>\<bar>x\<bar> = p / q\<close> it is \<open>bitlen p - bitlen q\<close> or one less.
\<close>

definition pow2 :: "int \<Rightarrow> rat" where
  "pow2 e = (if 0 \<le> e then 2 ^ nat e else 1 / 2 ^ nat (- e))"

definition binary_exponent :: "rat \<Rightarrow> int" where
  "binary_exponent x =
     (let (p, q) = quotient_of \<bar>x\<bar>;
          e = bitlen p - bitlen q
      in if pow2 e \<le> \<bar>x\<bar> then e else e - 1)"

text \<open>Rounding to the nearest integer, a tie to the even one.\<close>

definition round_half_even :: "rat \<Rightarrow> int" where
  "round_half_even q =
     (let n = \<lfloor>q\<rfloor>; f = q - of_int n
      in if f < 1 / 2 then n else if 1 / 2 < f then n + 1 else if even n then n else n + 1)"

text \<open>
  The double nearest to \<open>x\<close>: a double has 53 significant bits, so its unit in the last
  place is \<open>pow2 (e - 52)\<close> for the binary exponent \<open>e\<close>, and \<open>pow2 (- 1074)\<close> for the
  subnormal numbers below \<open>pow2 (- 1022)\<close>.
\<close>

definition double_round :: "rat \<Rightarrow> rat" where
  "double_round x =
     (if x = 0 then 0
      else
        let e = max (binary_exponent x) (- 1022);
            ulp = pow2 (e - 52)
        in of_int (round_half_even (x / ulp)) * ulp)"

definition number_add :: "rat \<Rightarrow> rat \<Rightarrow> rat" where
  "number_add a b = double_round (a + b)"

definition number_sub :: "rat \<Rightarrow> rat \<Rightarrow> rat" where
  "number_sub a b = double_round (a - b)"

subsection \<open>Rendering of numbers in identifiers\<close>

definition digit_char :: "nat \<Rightarrow> char" where
  "digit_char d = ''0123456789'' ! d"

fun string_of_nat :: "nat \<Rightarrow> string" where
  "string_of_nat n =
     (if n < 10 then [digit_char n]
      else string_of_nat (n div 10) @ [digit_char (n mod 10)])"

declare string_of_nat.simps [simp del]

definition padStart :: "nat \<Rightarrow> char \<Rightarrow> string \<Rightarrow> string" where
  "padStart n c str = (if length str < n then replicate (n - length str) c @ str else str)"

subsection \<open>Seed data and \<open>initializeDatabase\<close>\<close>

text \<open>
  The ten entries of \<open>seedTeams\<close> differ in \<open>id\<close> and \<open>name\<close> only; \<open>shortName\<close> is
  the \<open>id\<close>, both purses are 100 and \<open>maxPlayers\<close> is 25. The roster is the empty one
  that \<open>initializeDatabase\<close> gives to every seeded team.
\<close>

definition seedTeam :: "string \<Rightarrow> string \<Rightarrow> Team" where
  "seedTeam i n =
     \<lparr>team_id = i, team_name = n, shortName = i, totalPurse = 100, remainingPurse = 100,
      maxPlayers = 25, team_players = []\<rparr>"

definition seedTeams :: "Team list" where
  "seedTeams =
     [seedTeam ''MI'' ''Mumbai Indians'',
      seedTeam ''CSK'' ''Chennai Super Kings'',
      seedTeam ''RCB'' ''Royal Challengers Bangalore'',
      seedTeam ''KKR'' ''Kolkata Knight Riders'',
      seedTeam ''DC'' ''Delhi Capitals'',
      seedTeam ''SRH'' ''Sunrisers Hyderabad'',
      seedTeam ''PBKS'' ''Punjab Kings'',
      seedTeam ''RR'' ''Rajasthan Royals'',
      seedTeam ''GT'' ''Gujarat Titans'',
      seedTeam ''LSG'' ''Lucknow Super Giants'']"

definition playerNames :: "string list" where
  "playerNames =
     [''Virat Kohli'', ''Rohit Sharma'', ''MS Dhoni'', ''Jasprit Bumrah'', ''Ravindra Jadeja'',
      ''KL Rahul'', ''Hardik Pandya'', ''Rishabh Pant'', ''Shikhar Dhawan'', ''Mohammed Shami'',
      ''Yuzvendra Chahal'', ''Shreyas Iyer'', ''Suryakumar Yadav'', ''Ishan Kishan'', ''Washington Sundar'',
      ''Axar Patel'', ''Deepak Chahar'', ''Shardul Thakur'', ''Prithvi Shaw'', ''Shubman Gill'',
      ''Ruturaj Gaikwad'', ''Devdutt Padikkal'', ''Mayank Agarwal'', ''Sanju Samson'', ''Jos Buttler'',
      ''David Warner'', ''Glenn Maxwell'', ''Rashid Khan'', ''Kagiso Rabada'', ''Trent Boult'',
      ''Mitchell Starc'', ''Pat Cummins'', ''Kane Williamson'', ''Ben Stokes'', ''Chris Gayle'',
      ''AB de Villiers'', ''Quinton de Kock'', ''Faf du Plessis'', ''Andre Russell'', ''Sunil Narine'',
      ''Moeen Ali'', ''Sam Curran'', ''Liam Livingstone'', ''Jonny Bairstow'', ''Jason Roy'',
      ''Marcus Stoinis'', ''Glenn Phillips'', ''Tim David'', ''Wanindu Hasaranga'', ''Maheesh Theekshana'',
      ''Ajinkya Rahane'', ''Cheteshwar Pujara'', ''Dinesh Karthik'', ''Robin Uthappa'', ''Ambati Rayudu'',
      ''Manish Pandey'', ''Kedar Jadhav'', ''Krunal Pandya'', ''Ravichandran Ashwin'', ''Kuldeep Yadav'',
      ''Mohammed Siraj'', ''Umesh Yadav'', ''Navdeep Saini'', ''Khaleel Ahmed'', ''T Natarajan'',
      ''Arshdeep Singh'', ''Harshal Patel'', ''Avesh Khan'', ''Prasidh Krishna'', ''Mukesh Choudhary'',
      ''Tushar Deshpande'', ''Mohsin Khan'', ''Umran Malik'', ''Yash Dayal'', ''Kartik Tyagi'',
      ''Rahul Tewatia'', ''Rahul Tripathi'', ''Nitish Rana'', ''Venkatesh Iyer'', ''Tilak Varma'',
      ''Abhishek Sharma'', ''Yashasvi Jaiswal'', ''Sarfaraz Khan'', ''Rinku Singh'', ''Ramandeep Singh'',
      ''Shahrukh Khan'', ''Ravi Bishnoi'', ''Arshad Khan'', ''Harpreet Brar'', ''Lalit Yadav'',
      ''Riyan Parag'', ''Dhruv Jurel'', ''Jitesh Sharma'', ''Suyash Prabhudessai'', ''Atharva Taide'',
      ''Nehal Wadhera'', ''Vivrant Sharma'', ''Kumar Kushagra'', ''Shashank Singh'', ''Anmolpreet Singh'']"

definition roles :: "PlayerRole list" where
  "roles = [Batsman, Bowler, All_Rounder, Wicket_Keeper]"

text \<open>\<open>Math.round\<close> rounds to the nearest integer, a half towards plus infinity.\<close>

definition Math_round :: "rat \<Rightarrow> rat" where
  "Math_round x = of_int \<lfloor>x + 1 / 2\<rfloor>"

text \<open>
  \<open>generatePlayers\<close> draws the base price of player \<open>index\<close> with \<open>Math.random()\<close>;
  the draw is the parameter \<open>rnd index\<close>. The formula of the base price is taken over
  the exact values: no statement below depends on the value of a base price, only on
  its being the same before and after every operation.
\<close>

definition generatePlayer :: "(nat \<Rightarrow> rat) \<Rightarrow> nat \<Rightarrow> string \<Rightarrow> Player" where
  "generatePlayer rnd index name =
     \<lparr>player_id = ''P'' @ padStart 3 (CHR ''0'') (string_of_nat (index + 1)),
      player_name = name,
      role = roles ! (index mod length roles),
      basePrice = max (1 / 2) (Math_round ((rnd index * 15 + 1 / 2) * 10) / 10),
      player_status = Unsold,
      soldPrice = None,
      player_teamId = None\<rparr>"

definition generatePlayers :: "(nat \<Rightarrow> rat) \<Rightarrow> Player list" where
  "generatePlayers rnd =
     map (\<lambda>(index, name). generatePlayer rnd index name) (enumerate 0 playerNames)"

text \<open>
  The store after the first run of \<open>initializeDatabase\<close>: the collections are cleared,
  then filled with the seeded teams and the generated players.
\<close>

definition initializeDatabase :: "(nat \<Rightarrow> rat) \<Rightarrow> store" where
  "initializeDatabase rnd =
     \<lparr>teams = fold (\<lambda>t m. m(team_id t \<mapsto> t)) seedTeams Map.empty,
      players = fold (\<lambda>p m. m(player_id p \<mapsto> p)) (generatePlayers rnd) Map.empty,
      auctions = Map.empty,
      activities = [],
      bidLocks = Map.empty\<rparr>"

subsection \<open>Team, player and activity operations\<close>

definition updateTeamPurse :: "string \<Rightarrow> rat \<Rightarrow> store \<Rightarrow> store" where
  "updateTeamPurse teamId newPurse s =
     (case teams s teamId of
        None \<Rightarrow> s
      | Some team \<Rightarrow> s\<lparr>teams := (teams s)(teamId \<mapsto> team\<lparr>remainingPurse := newPurse\<rparr>)\<rparr>)"

definition addPlayerToTeam :: "string \<Rightarrow> string \<Rightarrow> store \<Rightarrow> store" where
  "addPlayerToTeam teamId player s =
     (case teams s teamId of
        None \<Rightarrow> s
      | Some team \<Rightarrow>
          s\<lparr>teams := (teams s)(teamId \<mapsto> team\<lparr>team_players := team_players team @ [player]\<rparr>)\<rparr>)"

definition updatePlayerStatus ::
  "string \<Rightarrow> PlayerStatus \<Rightarrow> string option \<Rightarrow> rat option \<Rightarrow> store \<Rightarrow> store" where
  "updatePlayerStatus playerId status teamId price s =
     (case players s playerId of
        None \<Rightarrow> s
      | Some player \<Rightarrow>
          s\<lparr>players := (players s)(playerId \<mapsto>
               player\<lparr>player_status := status, player_teamId := teamId, soldPrice := price\<rparr>)\<rparr>)"

text \<open>\<open>unshift\<close> puts the activity at the head; \<open>pop\<close> drops the last element.\<close>

definition addActivity :: "Activity \<Rightarrow> store \<Rightarrow> store" where
  "addActivity activity s =
     (let acts = activity # activities s
      in s\<lparr>activities := (if length acts > 100 then butlast acts else acts)\<rparr>)"

subsection \<open>\<open>createAuction\<close>\<close>

definition createAuction :: "nat \<Rightarrow> string \<Rightarrow> rat \<Rightarrow> store \<Rightarrow> Auction option \<times> store" where
  "createAuction now playerId duration s =
     (case players s playerId of
        None \<Rightarrow> (None, s)
      | Some player \<Rightarrow>
          if player_status player \<noteq> Unsold then (None, s)
          else
            let auctionId = ''AUC-'' @ string_of_nat now;
                auction = \<lparr>auction_id = auctionId,
                           auction_playerId = playerId,
                           auction_player = playerId,
                           currentBid = basePrice player,
                           currentBidder = None,
                           bids = [],
                           auction_status = live,
                           startTime = now,
                           endTime = None,
                           timerDuration = duration\<rparr>;
                s1 = s\<lparr>auctions := (auctions s)(auctionId \<mapsto> auction)\<rparr>;
                s2 = updatePlayerStatus playerId Live None None s1;
                s3 = addActivity
                       \<lparr>act_id = ''ACT-'' @ string_of_nat now,
                        act_type = Act_auction_start,
                        act_timestamp = now,
                        act_teamId = None,
                        act_playerId = Some playerId,
                        act_amount = None\<rparr> s2
            in (Some auction, s3))"

subsection \<open>\<open>placeBid\<close>\<close>

text \<open>
  The error strings of the source, in the order of its checks:
  \<open>BidInProgress\<close> is "Another bid is being processed. Please try again.",
  \<open>AuctionNotFound\<close> is "Auction not found", \<open>AuctionNotActive\<close> is
  "Auction is not active", \<open>TeamNotFound\<close> is "Team not found", \<open>BidTooLow\<close> is
  "Bid must be higher than current bid", \<open>InsufficientFunds\<close> is
  "Insufficient purse remaining".
\<close>

datatype BidError =
  BidInProgress | AuctionNotFound | AuctionNotActive | TeamNotFound | BidTooLow
  | InsufficientFunds

text \<open>The body of the \<open>try\<close> block.\<close>

definition placeBid_try ::
  "nat \<Rightarrow> string \<Rightarrow> string \<Rightarrow> rat \<Rightarrow> store \<Rightarrow> (BidError + Auction) \<times> store" where
  "placeBid_try now auctionId teamId amt s =
     (case auctions s auctionId of
        None \<Rightarrow> (Inl AuctionNotFound, s)
      | Some auction \<Rightarrow>
          if auction_status auction \<noteq> live then (Inl AuctionNotActive, s)
          else
            (case teams s teamId of
               None \<Rightarrow> (Inl TeamNotFound, s)
             | Some team \<Rightarrow>
                 if amt \<le> currentBid auction then (Inl BidTooLow, s)
                 else if amt > remainingPurse team then (Inl InsufficientFunds, s)
                 else
                   let bid = \<lparr>bid_id = ''BID-'' @ string_of_nat now,
                              bid_auctionId = auctionId,
                              bid_playerId = auction_playerId auction,
                              bid_teamId = teamId,
                              teamName = team_name team,
                              amount = amt,
                              bid_timestamp = now\<rparr>;
                       auction' = auction\<lparr>bids := bids auction @ [bid],
                                          currentBid := amt,
                                          currentBidder := Some teamId\<rparr>;
                       s1 = s\<lparr>auctions := (auctions s)(auctionId \<mapsto> auction')\<rparr>;
                       s2 = addActivity
                              \<lparr>act_id = ''ACT-'' @ string_of_nat now,
                               act_type = Act_bid,
                               act_timestamp = now,
                               act_teamId = Some teamId,
                               act_playerId = Some (auction_playerId auction),
                               act_amount = Some amt\<rparr> s1
                   in (Inr auction', s2)))"

text \<open>
  The lock: \<open>bidLocks.get(auctionId)\<close> is truthy exactly when the entry is \<open>true\<close>;
  the \<open>finally\<close> block deletes the entry on every path out of the \<open>try\<close> block.
\<close>

definition placeBid ::
  "nat \<Rightarrow> string \<Rightarrow> string \<Rightarrow> rat \<Rightarrow> store \<Rightarrow> (BidError + Auction) \<times> store" where
  "placeBid now auctionId teamId amt s =
     (if bidLocks s auctionId = Some True then (Inl BidInProgress, s)
      else
        let s1 = s\<lparr>bidLocks := (bidLocks s)(auctionId \<mapsto> True)\<rparr>;
            (r, s2) = placeBid_try now auctionId teamId amt s1
        in (r, s2\<lparr>bidLocks := (bidLocks s2)(auctionId := None)\<rparr>))"

subsection \<open>\<open>completeAuction\<close> (settlement)\<close>

text \<open>\<open>if (auction.currentBidder)\<close>: \<open>undefined\<close> and the empty string are falsy.\<close>

definition truthy :: "string option \<Rightarrow> bool" where
  "truthy x = (case x of None \<Rightarrow> False | Some str \<Rightarrow> str \<noteq> [])"

definition completeAuction :: "nat \<Rightarrow> string \<Rightarrow> store \<Rightarrow> Auction option \<times> store" where
  "completeAuction now auctionId s =
     (case auctions s auctionId of
        None \<Rightarrow> (None, s)
      | Some auction0 \<Rightarrow>
          if auction_status auction0 \<noteq> live then (None, s)
          else
            let auction = auction0\<lparr>auction_status := completed, endTime := Some now\<rparr>;
                s1 = s\<lparr>auctions := (auctions s)(auctionId \<mapsto> auction)\<rparr>
            in
              if truthy (currentBidder auction) then
                (case currentBidder auction of
                   None \<Rightarrow> (Some auction, s1)
                 | Some bidder \<Rightarrow>
                     let s2 = updatePlayerStatus (auction_playerId auction) Sold
                                (Some bidder) (Some (currentBid auction)) s1
                     in
                       (case teams s2 bidder of
                          None \<Rightarrow> (Some auction, s2)
                        | Some team \<Rightarrow>
                            let s3 = updateTeamPurse bidder
                                       (number_sub (remainingPurse team) (currentBid auction))
                                       s2;
                                s4 = addPlayerToTeam bidder (auction_player auction) s3;
                                s5 = addActivity
                                       \<lparr>act_id = ''ACT-'' @ string_of_nat now,
                                        act_type = Act_win,
                                        act_timestamp = now,
                                        act_teamId = Some bidder,
                                        act_playerId = Some (auction_playerId auction),
                                        act_amount = Some (currentBid auction)\<rparr> s4
                            in (Some auction, s5)))
              else
                let s2 = updatePlayerStatus (auction_playerId auction) Unsold None None s1;
                    s3 = addActivity
                           \<lparr>act_id = ''ACT-'' @ string_of_nat now,
                            act_type = Act_auction_end,
                            act_timestamp = now,
                            act_teamId = None,
                            act_playerId = Some (auction_playerId auction),
                            act_amount = None\<rparr> s2
                in (Some auction, s3))"

subsection \<open>Sequences of operations\<close>

datatype operation =
  CreateAuction nat string rat
  | PlaceBid nat string string rat
  | SettleAuction nat string

fun op_time :: "operation \<Rightarrow> nat" where
  "op_time (CreateAuction now playerId duration) = now"
| "op_time (PlaceBid now auctionId teamId amt) = now"
| "op_time (SettleAuction now auctionId) = now"

fun exec :: "operation \<Rightarrow> store \<Rightarrow> store" where
  "exec (CreateAuction now playerId duration) s = snd (createAuction now playerId duration s)"
| "exec (PlaceBid now auctionId teamId amt) s = snd (placeBid now auctionId teamId amt s)"
| "exec (SettleAuction now auctionId) s = snd (completeAuction now auctionId s)"

fun run :: "operation list \<Rightarrow> store \<Rightarrow> store" where
  "run [] s = s"
| "run (x # xs) s = run xs (exec x s)"

subsection \<open>Properties of stores\<close>

text \<open>
  The sold prices of the players of a roster, in roster order; \<open>None\<close> when a roster
  entry is no player of the store or a player without sold price.
\<close>

fun rosterSoldPrices :: "(string \<rightharpoonup> Player) \<Rightarrow> string list \<Rightarrow> rat list option" where
  "rosterSoldPrices ps [] = Some []"
| "rosterSoldPrices ps (r # rs) =
     (case ps r of
        None \<Rightarrow> None
      | Some p \<Rightarrow>
          (case soldPrice p of
             None \<Rightarrow> None
           | Some x \<Rightarrow> map_option (\<lambda>xs. x # xs) (rosterSoldPrices ps rs)))"

text \<open>
  Purse conservation as the specification states it: the remaining purse is the total
  purse minus the sum of the sold prices of the roster. \<open>purse_identity\<close> reads the sum
  and the difference over the exact values; \<open>purse_identity_js\<close> evaluates them with the
  arithmetic of the source, the sum from 0 in roster order.
\<close>

definition purse_identity :: "(string \<rightharpoonup> Player) \<Rightarrow> Team \<Rightarrow> bool" where
  "purse_identity ps team \<longleftrightarrow>
     map_option (\<lambda>xs. totalPurse team - sum_list xs) (rosterSoldPrices ps (team_players team))
       = Some (remainingPurse team)"

definition purse_identity_js :: "(string \<rightharpoonup> Player) \<Rightarrow> Team \<Rightarrow> bool" where
  "purse_identity_js ps team \<longleftrightarrow>
     map_option (\<lambda>xs. number_sub (totalPurse team) (foldl number_add 0 xs))
       (rosterSoldPrices ps (team_players team))
       = Some (remainingPurse team)"

text \<open>
  What settlement keeps: the remaining purse is the total purse with the sold prices of
  the roster subtracted one after the other, in roster order, by the subtraction of the
  source.
\<close>

definition purse_stepwise :: "(string \<rightharpoonup> Player) \<Rightarrow> Team \<Rightarrow> bool" where
  "purse_stepwise ps team \<longleftrightarrow>
     map_option (foldl number_sub (totalPurse team)) (rosterSoldPrices ps (team_players team))
       = Some (remainingPurse team)"

text \<open>The timestamps of the bids of an auction, and the two orders asked of them.\<close>

definition bid_timestamps :: "Auction \<Rightarrow> nat list" where
  "bid_timestamps a = map bid_timestamp (bids a)"

definition timestamps_nondecreasing :: "Auction \<Rightarrow> bool" where
  "timestamps_nondecreasing a \<longleftrightarrow> sorted (bid_timestamps a)"

definition timestamps_increasing :: "Auction \<Rightarrow> bool" where
  "timestamps_increasing a \<longleftrightarrow> sorted_wrt (<) (bid_timestamps a)"

text \<open>The draws of \<open>Math.random()\<close> that are all 0.\<close>

definition zero_draws :: "nat \<Rightarrow> rat" where
  "zero_draws i = 0"

text \<open>The player of a live auction is held by reference and has status \<open>Live\<close>.\<close>

definition live_players_ok :: "store \<Rightarrow> bool" where
  "live_players_ok s \<longleftrightarrow>
     (\<forall>k a. auctions s k = Some a \<and> auction_status a = live \<longrightarrow>
        auction_player a = auction_playerId a
      \<and> map_option player_status (players s (auction_playerId a)) = Some Live)"

text \<open>No two live auctions are about the same player.\<close>

definition live_distinct :: "store \<Rightarrow> bool" where
  "live_distinct s \<longleftrightarrow>
     (\<forall>k k' a a'. auctions s k = Some a \<and> auction_status a = live
        \<and> auctions s k' = Some a' \<and> auction_status a' = live
        \<and> auction_playerId a = auction_playerId a' \<longrightarrow> k = k')"

text \<open>Every roster entry is a player with status \<open>Sold\<close>.\<close>

definition rosters_sold :: "store \<Rightarrow> bool" where
  "rosters_sold s \<longleftrightarrow>
     (\<forall>t team r. teams s t = Some team \<and> r \<in> set (team_players team) \<longrightarrow>
        map_option player_status (players s r) = Some Sold)"

text \<open>Every team of the store has the purse that its settlements left.\<close>

definition purse_conserved :: "store \<Rightarrow> bool" where
  "purse_conserved s \<longleftrightarrow> (\<forall>t team. teams s t = Some team \<longrightarrow> purse_stepwise (players s) team)"

definition purse_inv :: "store \<Rightarrow> bool" where
  "purse_inv s \<longleftrightarrow> live_players_ok s \<and> live_distinct s \<and> rosters_sold s \<and> purse_conserved s"

text \<open>The leader of an auction is the team of its last bid.\<close>

definition leader_ok :: "(string \<rightharpoonup> Player) \<Rightarrow> Auction \<Rightarrow> bool" where
  "leader_ok ps a \<longleftrightarrow>
     (currentBidder a \<noteq> None \<longleftrightarrow> bids a \<noteq> [])
   \<and> (bids a \<noteq> [] \<longrightarrow>
        currentBidder a = Some (bid_teamId (last (bids a)))
      \<and> currentBid a = amount (last (bids a)))
   \<and> (bids a = [] \<longrightarrow> map_option basePrice (ps (auction_playerId a)) = Some (currentBid a))"

definition leader_inv :: "store \<Rightarrow> bool" where
  "leader_inv s \<longleftrightarrow> (\<forall>k a. auctions s k = Some a \<longrightarrow> leader_ok (players s) a)"

text \<open>The amounts of the bids of an auction are strictly increasing.\<close>

definition bids_increasing :: "Auction \<Rightarrow> bool" where
  "bids_increasing a \<longleftrightarrow> sorted_wrt (<) (map amount (bids a))"

definition amounts_inv :: "store \<Rightarrow> bool" where
  "amounts_inv s \<longleftrightarrow> leader_inv s \<and> (\<forall>k a. auctions s k = Some a \<longrightarrow> bids_increasing a)"

text \<open>
  The timestamps of the bids of an auction are non-decreasing, and none is later than the
  clock reading \<open>c\<close>.
\<close>

definition bids_chronological :: "nat \<Rightarrow> Auction \<Rightarrow> bool" where
  "bids_chronological c a \<longleftrightarrow>
     sorted (map bid_timestamp (bids a)) \<and> (\<forall>b \<in> set (bids a). bid_timestamp b \<le> c)"

definition clock_inv :: "nat \<Rightarrow> store \<Rightarrow> bool" where
  "clock_inv c s \<longleftrightarrow> (\<forall>k a. auctions s k = Some a \<longrightarrow> bids_chronological c a)"


section \<open>Effects of the operations\<close>

lemmas store_ops_defs = updatePlayerStatus_def updateTeamPurse_def addPlayerToTeam_def addActivity_def

lemma completeAuction_missing:
  "auctions s auctionId = None \<Longrightarrow> completeAuction now auctionId s = (None, s)"
  by (simp add: completeAuction_def)

lemma completeAuction_not_live:
  "auctions s auctionId = Some a \<Longrightarrow> auction_status a \<noteq> live \<Longrightarrow>
   completeAuction now auctionId s = (None, s)"
  by (simp add: completeAuction_def)

lemma completeAuction_live_fst:
  "auctions s auctionId = Some a \<Longrightarrow> auction_status a = live \<Longrightarrow>
   fst (completeAuction now auctionId s) = Some (a\<lparr>auction_status := completed, endTime := Some now\<rparr>)"
  by (simp add: completeAuction_def Let_def split: option.splits)

lemma completeAuction_live_auctions:
  "auctions s auctionId = Some a \<Longrightarrow> auction_status a = live \<Longrightarrow>
   auctions (snd (completeAuction now auctionId s)) =
     (auctions s)(auctionId \<mapsto> a\<lparr>auction_status := completed, endTime := Some now\<rparr>)"
  by (simp add: completeAuction_def Let_def store_ops_defs split: option.splits)

lemma completeAuction_bidLocks:
  "bidLocks (snd (completeAuction now auctionId s)) = bidLocks s"
  by (simp add: completeAuction_def Let_def store_ops_defs split: option.splits)

lemma completeAuction_sold:
  assumes "auctions s auctionId = Some a" and "auction_status a = live"
    and "currentBidder a = Some b" and "b \<noteq> []" and "teams s b = Some team"
  shows "teams (snd (completeAuction now auctionId s)) =
           (teams s)(b \<mapsto> team\<lparr>remainingPurse := number_sub (remainingPurse team) (currentBid a),
                                 team_players := team_players team @ [auction_player a]\<rparr>)"
    and "players (snd (completeAuction now auctionId s)) =
           (case players s (auction_playerId a) of
              None \<Rightarrow> players s
            | Some p \<Rightarrow> (players s)(auction_playerId a \<mapsto>
                 p\<lparr>player_status := Sold, player_teamId := Some b,
                   soldPrice := Some (currentBid a)\<rparr>))"
    and "activities (snd (completeAuction now auctionId s)) =
           activities (addActivity
              \<lparr>act_id = ''ACT-'' @ string_of_nat now, act_type = Act_win, act_timestamp = now,
               act_teamId = Some b, act_playerId = Some (auction_playerId a),
               act_amount = Some (currentBid a)\<rparr> s)"
  using assms
  by (simp_all add: completeAuction_def Let_def truthy_def store_ops_defs split: option.splits)

lemma completeAuction_sold_no_team:
  assumes "auctions s auctionId = Some a" and "auction_status a = live"
    and "currentBidder a = Some b" and "b \<noteq> []" and "teams s b = None"
  shows "teams (snd (completeAuction now auctionId s)) = teams s"
    and "players (snd (completeAuction now auctionId s)) =
           (case players s (auction_playerId a) of
              None \<Rightarrow> players s
            | Some p \<Rightarrow> (players s)(auction_playerId a \<mapsto>
                 p\<lparr>player_status := Sold, player_teamId := Some b,
                   soldPrice := Some (currentBid a)\<rparr>))"
    and "activities (snd (completeAuction now auctionId s)) = activities s"
  using assms
  by (simp_all add: completeAuction_def Let_def truthy_def store_ops_defs split: option.splits)

lemma completeAuction_unsold:
  assumes "auctions s auctionId = Some a" and "auction_status a = live"
    and "\<not> truthy (currentBidder a)"
  shows "teams (snd (completeAuction now auctionId s)) = teams s"
    and "players (snd (completeAuction now auctionId s)) =
           (case players s (auction_playerId a) of
              None \<Rightarrow> players s
            | Some p \<Rightarrow> (players s)(auction_playerId a \<mapsto>
                 p\<lparr>player_status := Unsold, player_teamId := None, soldPrice := None\<rparr>))"
    and "activities (snd (completeAuction now auctionId s)) =
           activities (addActivity
              \<lparr>act_id = ''ACT-'' @ string_of_nat now, act_type = Act_auction_end,
               act_timestamp = now, act_teamId = None,
               act_playerId = Some (auction_playerId a), act_amount = None\<rparr> s)"
  using assms
  by (simp_all add: completeAuction_def Let_def store_ops_defs split: option.splits)

lemma activities_addActivity:
  "activities (addActivity act s) =
     act # (if length (activities s) < 100 then activities s else butlast (activities s))"
  by (cases "activities s") (simp_all add: addActivity_def Let_def)

lemma createAuction_rejects:
  "players s playerId = Some p \<Longrightarrow> player_status p \<noteq> Unsold \<Longrightarrow>
   createAuction now playerId duration s = (None, s)"
  by (simp add: createAuction_def)

lemma createAuction_accepts:
  assumes "players s playerId = Some p" and "player_status p = Unsold"
  shows "fst (createAuction now playerId duration s) =
           Some \<lparr>auction_id = ''AUC-'' @ string_of_nat now, auction_playerId = playerId,
                 auction_player = playerId, currentBid = basePrice p, currentBidder = None,
                 bids = [], auction_status = live, startTime = now, endTime = None,
                 timerDuration = duration\<rparr>"
    and "auctions (snd (createAuction now playerId duration s)) =
           (auctions s)(''AUC-'' @ string_of_nat now \<mapsto>
              \<lparr>auction_id = ''AUC-'' @ string_of_nat now, auction_playerId = playerId,
               auction_player = playerId, currentBid = basePrice p, currentBidder = None,
               bids = [], auction_status = live, startTime = now, endTime = None,
               timerDuration = duration\<rparr>)"
    and "players (snd (createAuction now playerId duration s)) =
           (players s)(playerId \<mapsto>
              p\<lparr>player_status := Live, player_teamId := None, soldPrice := None\<rparr>)"
    and "activities (snd (createAuction now playerId duration s)) =
           activities (addActivity
              \<lparr>act_id = ''ACT-'' @ string_of_nat now, act_type = Act_auction_start,
               act_timestamp = now, act_teamId = None, act_playerId = Some playerId,
               act_amount = None\<rparr> s)"
  using assms by (simp_all add: createAuction_def Let_def store_ops_defs)

lemma createAuction_teams:
  "teams (snd (createAuction now playerId duration s)) = teams s"
  by (simp add: createAuction_def Let_def store_ops_defs split: option.splits)

lemma createAuction_bidLocks:
  "bidLocks (snd (createAuction now playerId duration s)) = bidLocks s"
  by (simp add: createAuction_def Let_def store_ops_defs split: option.splits)

lemma placeBid_teams: "teams (snd (placeBid now auctionId teamId amt s)) = teams s"
  by (simp add: placeBid_def placeBid_try_def Let_def addActivity_def
      split: option.splits prod.splits)

lemma placeBid_players: "players (snd (placeBid now auctionId teamId amt s)) = players s"
  by (simp add: placeBid_def placeBid_try_def Let_def addActivity_def
      split: option.splits prod.splits)

lemma placeBid_failure:
  assumes "fst (placeBid now auctionId teamId amt s) = Inl e"
  shows "auctions (snd (placeBid now auctionId teamId amt s)) = auctions s"
    and "activities (snd (placeBid now auctionId teamId amt s)) = activities s"
  using assms
  by (auto simp: placeBid_def placeBid_try_def Let_def split: option.splits prod.splits if_splits)

lemma placeBid_success:
  assumes "fst (placeBid now auctionId teamId amt s) = Inr a'"
  shows "\<exists>a team.
           auctions s auctionId = Some a \<and> auction_status a = live
         \<and> teams s teamId = Some team
         \<and> currentBid a < amt \<and> amt \<le> remainingPurse team
         \<and> a' = a\<lparr>bids := bids a @
                     [\<lparr>bid_id = ''BID-'' @ string_of_nat now, bid_auctionId = auctionId,
                       bid_playerId = auction_playerId a, bid_teamId = teamId,
                       teamName = team_name team, amount = amt, bid_timestamp = now\<rparr>],
                   currentBid := amt, currentBidder := Some teamId\<rparr>
         \<and> auctions (snd (placeBid now auctionId teamId amt s)) = (auctions s)(auctionId \<mapsto> a')
         \<and> activities (snd (placeBid now auctionId teamId amt s)) =
             activities (addActivity
               \<lparr>act_id = ''ACT-'' @ string_of_nat now, act_type = Act_bid, act_timestamp = now,
                act_teamId = Some teamId, act_playerId = Some (auction_playerId a),
                act_amount = Some amt\<rparr> s)"
  using assms
  by (auto simp: placeBid_def placeBid_try_def Let_def addActivity_def
      split: option.splits prod.splits if_splits)

lemma placeBid_bidLocks:
  "bidLocks s = Map.empty \<Longrightarrow> bidLocks (snd (placeBid now auctionId teamId amt s)) = Map.empty"
  by (auto simp: placeBid_def placeBid_try_def Let_def addActivity_def
      split: option.splits prod.splits if_splits)

lemma rosterSoldPrices_cong:
  "(\<And>r. r \<in> set rs \<Longrightarrow> ps' r = ps r) \<Longrightarrow> rosterSoldPrices ps' rs = rosterSoldPrices ps rs"
  by (induction rs) (auto split: option.splits)

lemma rosterSoldPrices_snoc:
  "rosterSoldPrices ps (rs @ [r]) =
     (case rosterSoldPrices ps rs of
        None \<Rightarrow> None
      | Some xs \<Rightarrow>
          (case ps r of
             None \<Rightarrow> None
           | Some p \<Rightarrow> (case soldPrice p of None \<Rightarrow> None | Some y \<Rightarrow> Some (xs @ [y]))))"
  by (induction rs) (auto split: option.splits)

lemma purse_stepwise_cong:
  "(\<And>r. r \<in> set (team_players team) \<Longrightarrow> ps' r = ps r) \<Longrightarrow>
   purse_stepwise ps' team = purse_stepwise ps team"
  by (simp add: purse_stepwise_def rosterSoldPrices_cong [of "team_players team" ps' ps])

lemma purse_stepwise_win:
  assumes "purse_stepwise ps team" and "ps' r = Some p" and "soldPrice p = Some c"
    and "\<And>q. q \<in> set (team_players team) \<Longrightarrow> ps' q = ps q"
  shows "purse_stepwise ps'
           (team\<lparr>remainingPurse := number_sub (remainingPurse team) c,
                 team_players := team_players team @ [r]\<rparr>)"
proof -
  have same: "rosterSoldPrices ps' (team_players team) = rosterSoldPrices ps (team_players team)"
    by (rule rosterSoldPrices_cong) (rule assms(4))
  from assms(1) obtain xs where
    xs: "rosterSoldPrices ps (team_players team) = Some xs"
        "foldl number_sub (totalPurse team) xs = remainingPurse team"
    by (auto simp: purse_stepwise_def)
  show ?thesis
    using same xs assms(2,3) by (simp add: purse_stepwise_def rosterSoldPrices_snoc)
qed

lemma purse_inv_cong:
  "auctions s' = auctions s \<Longrightarrow> teams s' = teams s \<Longrightarrow> players s' = players s \<Longrightarrow>
   purse_inv s' = purse_inv s"
  by (simp add: purse_inv_def live_players_ok_def live_distinct_def rosters_sold_def
      purse_conserved_def)

lemma purse_inv_createAuction:
  assumes "purse_inv s"
  shows "purse_inv (snd (createAuction now playerId duration s))"
proof (cases "players s playerId")
  case None
  then show ?thesis using assms by (simp add: createAuction_def)
next
  case (Some p)
  show ?thesis
  proof (cases "player_status p = Unsold")
    case False
    then show ?thesis using assms Some by (simp add: createAuction_rejects)
  next
    case True
    let ?s' = "snd (createAuction now playerId duration s)"
    note c = createAuction_accepts [OF Some True, of now duration]
    have tm: "teams ?s' = teams s" by (rule createAuction_teams)
    have other: "players ?s' q = players s q" if "q \<noteq> playerId" for q
      using c(3) that by simp
    have not_live: "auction_playerId a \<noteq> playerId"
      if "auctions s k = Some a" "auction_status a = live" for k a
      using assms that Some True by (fastforce simp: purse_inv_def live_players_ok_def)
    have not_roster: "r \<noteq> playerId"
      if "teams s t = Some team" "r \<in> set (team_players team)" for t team r
      using assms that Some True by (fastforce simp: purse_inv_def rosters_sold_def)
    have 1: "live_players_ok ?s'"
      using assms not_live
      by (auto simp: purse_inv_def live_players_ok_def c(2) c(3) split: if_splits)
    have 2: "live_distinct ?s'"
      using assms not_live
      unfolding purse_inv_def live_distinct_def c(2)
      by (auto split: if_splits)
    have 3: "rosters_sold ?s'"
      using assms not_roster
      unfolding purse_inv_def rosters_sold_def tm
      by (metis other)
    have 4: "purse_conserved ?s'"
      unfolding purse_conserved_def tm
    proof (intro allI impI)
      fix t team assume t: "teams s t = Some team"
      have "purse_stepwise (players ?s') team = purse_stepwise (players s) team"
        by (rule purse_stepwise_cong) (use not_roster [OF t] other in blast)
      then show "purse_stepwise (players ?s') team"
        using assms t by (simp add: purse_inv_def purse_conserved_def)
    qed
    from 1 2 3 4 show ?thesis by (simp add: purse_inv_def)
  qed
qed

lemma purse_inv_placeBid:
  assumes "purse_inv s"
  shows "purse_inv (snd (placeBid now auctionId teamId amt s))"
proof (cases "fst (placeBid now auctionId teamId amt s)")
  case (Inl e)
  then show ?thesis
    using assms purse_inv_cong [OF placeBid_failure(1) [OF Inl] placeBid_teams placeBid_players]
    by simp
next
  case (Inr a')
  let ?s' = "snd (placeBid now auctionId teamId amt s)"
  from placeBid_success [OF Inr] obtain a where
    a: "auctions s auctionId = Some a" "auction_status a = live"
       "auction_status a' = live" "auction_playerId a' = auction_playerId a"
       "auction_player a' = auction_player a"
       "auctions ?s' = (auctions s)(auctionId \<mapsto> a')"
    by auto
  have 1: "live_players_ok ?s'"
    using assms a
    by (auto simp: purse_inv_def live_players_ok_def placeBid_players split: if_splits)
  have 2: "live_distinct ?s'"
    using assms a(1-4)
    unfolding purse_inv_def live_distinct_def a(6)
    by (auto split: if_splits)
  from 1 2 assms show ?thesis
    by (simp add: purse_inv_def rosters_sold_def purse_conserved_def placeBid_teams
        placeBid_players)
qed

lemma purse_inv_settle_step:
  assumes inv: "purse_inv s"
    and a: "auctions s auctionId = Some a" "auction_status a = live"
    and au: "auctions s' = (auctions s)(auctionId \<mapsto> a2)" "auction_status a2 \<noteq> live"
    and pl: "players s' = (players s)(auction_playerId a \<mapsto> p')"
    and tm: "teams s' = teams s
           \<or> (\<exists>b team c. teams s b = Some team \<and> player_status p' = Sold \<and> soldPrice p' = Some c
                \<and> teams s' = (teams s)(b \<mapsto> team\<lparr>remainingPurse := number_sub (remainingPurse team) c,
                     team_players := team_players team @ [auction_playerId a]\<rparr>))"
  shows "purse_inv s'"
proof -
  let ?pid = "auction_playerId a"
  obtain p where p: "players s ?pid = Some p" "player_status p = Live"
    using inv a by (fastforce simp: purse_inv_def live_players_ok_def)
  have other: "players s' q = players s q" if "q \<noteq> ?pid" for q
    using pl that by simp
  have other_live: "auction_playerId a' \<noteq> ?pid"
    if "auctions s k = Some a'" "auction_status a' = live" "k \<noteq> auctionId" for k a'
    using inv a that unfolding purse_inv_def live_distinct_def by blast
  have not_roster: "r \<noteq> ?pid"
    if "teams s t = Some team" "r \<in> set (team_players team)" for t team r
    using inv that p by (fastforce simp: purse_inv_def rosters_sold_def)
  have total_same: "purse_stepwise (players s') team = purse_stepwise (players s) team"
    if "teams s t = Some team" for t team
    by (rule purse_stepwise_cong) (use not_roster [OF that] other in blast)
  have old_sold: "\<exists>z. players s r = Some z \<and> player_status z = Sold"
    if "teams s t = Some team" "r \<in> set (team_players team)" for t team r
    using inv that by (fastforce simp: purse_inv_def rosters_sold_def)
  have old_purse: "purse_stepwise (players s) team"
    if "teams s t = Some team" for t team
    using inv that by (simp add: purse_inv_def purse_conserved_def)
  have 1: "live_players_ok s'"
    unfolding live_players_ok_def
  proof (intro allI impI)
    fix k a' assume h: "auctions s' k = Some a' \<and> auction_status a' = live"
    then have k: "k \<noteq> auctionId" "auctions s k = Some a'" "auction_status a' = live"
      using au by (auto split: if_splits)
    have "auction_player a' = auction_playerId a'
        \<and> map_option player_status (players s (auction_playerId a')) = Some Live"
      using inv k unfolding purse_inv_def live_players_ok_def by blast
    then show "auction_player a' = auction_playerId a'
        \<and> map_option player_status (players s' (auction_playerId a')) = Some Live"
      using other [OF other_live [OF k(2,3,1)]] by simp
  qed
  have 2: "live_distinct s'"
    unfolding live_distinct_def
  proof (intro allI impI)
    fix k k' a1 a1'
    assume h: "auctions s' k = Some a1 \<and> auction_status a1 = live
        \<and> auctions s' k' = Some a1' \<and> auction_status a1' = live
        \<and> auction_playerId a1 = auction_playerId a1'"
    then have "auctions s k = Some a1" "auctions s k' = Some a1'"
      using au by (auto split: if_splits)
    with h inv show "k = k'" unfolding purse_inv_def live_distinct_def by blast
  qed
  from tm have "rosters_sold s' \<and> purse_conserved s'"
  proof
    assume same: "teams s' = teams s"
    have "rosters_sold s'"
      unfolding rosters_sold_def same
    proof (intro allI impI)
      fix t team r assume h: "teams s t = Some team \<and> r \<in> set (team_players team)"
      then have "r \<noteq> ?pid" using not_roster by blast
      with old_sold h other show "map_option player_status (players s' r) = Some Sold"
        by fastforce
    qed
    moreover have "purse_conserved s'"
      unfolding purse_conserved_def same
      using total_same old_purse by simp
    ultimately show ?thesis by simp
  next
    assume "\<exists>b team c. teams s b = Some team \<and> player_status p' = Sold \<and> soldPrice p' = Some c
        \<and> teams s' = (teams s)(b \<mapsto> team\<lparr>remainingPurse := number_sub (remainingPurse team) c,
              team_players := team_players team @ [auction_playerId a]\<rparr>)"
    then obtain b team c where b: "teams s b = Some team" "player_status p' = Sold"
      "soldPrice p' = Some c"
      "teams s' = (teams s)(b \<mapsto> team\<lparr>remainingPurse := number_sub (remainingPurse team) c,
              team_players := team_players team @ [auction_playerId a]\<rparr>)"
      by blast
    have new: "players s' ?pid = Some p'" using pl by simp
    have "rosters_sold s'"
      unfolding rosters_sold_def
    proof (intro allI impI)
      fix t team' r assume h: "teams s' t = Some team' \<and> r \<in> set (team_players team')"
      show "map_option player_status (players s' r) = Some Sold"
      proof (cases "r = ?pid")
        case True
        then show ?thesis using new b(2) by simp
      next
        case False
        with h b(1,4) obtain t0 team0 where "teams s t0 = Some team0" "r \<in> set (team_players team0)"
          by (auto split: if_splits)
        with old_sold other [OF False] show ?thesis by fastforce
      qed
    qed
    moreover have "purse_conserved s'"
      unfolding purse_conserved_def
    proof (intro allI impI)
      fix t team' assume h: "teams s' t = Some team'"
      show "purse_stepwise (players s') team'"
      proof (cases "t = b")
        case False
        then have "teams s t = Some team'" using h b(4) by simp
        then show ?thesis using total_same old_purse by simp
      next
        case True
        then have t': "team' = team\<lparr>remainingPurse := number_sub (remainingPurse team) c,
              team_players := team_players team @ [auction_playerId a]\<rparr>"
          using h b(4) by simp
        show ?thesis
          unfolding t'
          by (rule purse_stepwise_win [where ps = "players s" and ps' = "players s'",
                OF old_purse [OF b(1)] new b(3)])
            (use not_roster [OF b(1)] other in blast)
      qed
    qed
    ultimately show ?thesis by simp
  qed
  with 1 2 show ?thesis by (simp add: purse_inv_def)
qed

lemma purse_inv_completeAuction:
  assumes "purse_inv s"
  shows "purse_inv (snd (completeAuction now auctionId s))"
proof (cases "auctions s auctionId")
  case None
  then show ?thesis using assms by (simp add: completeAuction_missing)
next
  case (Some a)
  show ?thesis
  proof (cases "auction_status a = live")
    case False
    then show ?thesis using assms Some by (simp add: completeAuction_not_live)
  next
    case True
    let ?s' = "snd (completeAuction now auctionId s)"
    let ?a2 = "a\<lparr>auction_status := completed, endTime := Some now\<rparr>"
    obtain p where p: "players s (auction_playerId a) = Some p"
      and ref: "auction_player a = auction_playerId a"
      using assms Some True by (fastforce simp: purse_inv_def live_players_ok_def)
    have au: "auctions ?s' = (auctions s)(auctionId \<mapsto> ?a2)" "auction_status ?a2 \<noteq> live"
      using completeAuction_live_auctions [OF Some True] by simp_all
    show ?thesis
    proof (cases "truthy (currentBidder a)")
      case False
      note u = completeAuction_unsold [OF Some True False, of now]
      show ?thesis
        by (rule purse_inv_settle_step [OF assms Some True au])
          (use u p in simp_all)
    next
      case bidder: True
      then obtain b where b: "currentBidder a = Some b" "b \<noteq> []"
        by (auto simp: truthy_def split: option.splits)
      show ?thesis
      proof (cases "teams s b")
        case None
        note u = completeAuction_sold_no_team [OF Some True b None, of now]
        show ?thesis
          by (rule purse_inv_settle_step [OF assms Some True au])
            (use u p in simp_all)
      next
        case team: (Some team)
        note u = completeAuction_sold [OF Some True b team, of now]
        let ?p' = "p\<lparr>player_status := Sold, player_teamId := Some b,
                     soldPrice := Some (currentBid a)\<rparr>"
        show ?thesis
        proof (rule purse_inv_settle_step [OF assms Some True au, where p' = ?p'])
          show "players ?s' = (players s)(auction_playerId a \<mapsto> ?p')"
            using u(2) p by simp
          show "teams ?s' = teams s
              \<or> (\<exists>b team c. teams s b = Some team \<and> player_status ?p' = Sold
                   \<and> soldPrice ?p' = Some c
                   \<and> teams ?s' = (teams s)(b \<mapsto> team\<lparr>remainingPurse := number_sub (remainingPurse team) c,
                        team_players := team_players team @ [auction_playerId a]\<rparr>))"
            by (rule disjI2, rule exI [of _ b], rule exI [of _ team],
                rule exI [of _ "currentBid a"]) (use u(1) ref team in simp)
        qed
      qed
    qed
  qed
qed

lemma seeded_team:
  assumes "teams (initializeDatabase rnd) t = Some team"
  shows "team_players team = []" and "remainingPurse team = totalPurse team" and "t \<noteq> []"
  using assms
  by (auto simp: initializeDatabase_def seedTeams_def seedTeam_def split: if_splits)

lemma seeded_auctions: "auctions (initializeDatabase rnd) = Map.empty"
  by (simp add: initializeDatabase_def)

lemma purse_inv_initializeDatabase: "purse_inv (initializeDatabase rnd)"
  unfolding purse_inv_def live_players_ok_def live_distinct_def rosters_sold_def
    purse_conserved_def
  by (auto simp: seeded_auctions seeded_team purse_stepwise_def)

lemma purse_inv_exec: "purse_inv s \<Longrightarrow> purse_inv (exec x s)"
  by (cases x)
    (simp_all add: purse_inv_createAuction purse_inv_placeBid purse_inv_completeAuction)

lemma purse_inv_run: "purse_inv s \<Longrightarrow> purse_inv (run xs s)"
  by (induction xs arbitrary: s) (simp_all add: purse_inv_exec)

lemma leader_ok_basePrice:
  "map_option basePrice (ps' (auction_playerId a)) = map_option basePrice (ps (auction_playerId a))
   \<Longrightarrow> leader_ok ps' a = leader_ok ps a"
  by (simp add: leader_ok_def)

lemma createAuction_basePrice:
  "map_option basePrice (players (snd (createAuction now playerId duration s)) q)
     = map_option basePrice (players s q)"
  by (simp add: createAuction_def Let_def store_ops_defs split: option.splits)

lemma completeAuction_basePrice:
  "map_option basePrice (players (snd (completeAuction now auctionId s)) q)
     = map_option basePrice (players s q)"
  by (simp add: completeAuction_def Let_def store_ops_defs split: option.splits)

lemma leader_inv_createAuction:
  assumes "leader_inv s"
  shows "leader_inv (snd (createAuction now playerId duration s))"
proof (cases "players s playerId")
  case None
  then show ?thesis using assms by (simp add: createAuction_def)
next
  case (Some p)
  show ?thesis
  proof (cases "player_status p = Unsold")
    case False
    then show ?thesis using assms Some by (simp add: createAuction_rejects)
  next
    case True
    let ?s' = "snd (createAuction now playerId duration s)"
    note c = createAuction_accepts [OF Some True, of now duration]
    show ?thesis
      unfolding leader_inv_def
    proof (intro allI impI)
      fix k a assume h: "auctions ?s' k = Some a"
      have bp: "leader_ok (players ?s') a = leader_ok (players s) a"
        by (rule leader_ok_basePrice) (rule createAuction_basePrice)
      show "leader_ok (players ?s') a"
      proof (cases "k = ''AUC-'' @ string_of_nat now")
        case False
        then have "auctions s k = Some a" using h c(2) by simp
        then show ?thesis using assms bp by (simp add: leader_inv_def)
      next
        case True
        then have "a = \<lparr>auction_id = ''AUC-'' @ string_of_nat now, auction_playerId = playerId,
               auction_player = playerId, currentBid = basePrice p, currentBidder = None,
               bids = [], auction_status = live, startTime = now, endTime = None,
               timerDuration = duration\<rparr>"
          using h c(2) by simp
        then show ?thesis unfolding bp using Some by (simp add: leader_ok_def)
      qed
    qed
  qed
qed

lemma leader_inv_placeBid:
  assumes "leader_inv s"
  shows "leader_inv (snd (placeBid now auctionId teamId amt s))"
proof (cases "fst (placeBid now auctionId teamId amt s)")
  case (Inl e)
  then show ?thesis
    using assms placeBid_failure(1) [OF Inl] by (simp add: leader_inv_def placeBid_players)
next
  case (Inr a')
  let ?s' = "snd (placeBid now auctionId teamId amt s)"
  from placeBid_success [OF Inr] obtain a where
    a: "bids a' \<noteq> []" "bid_teamId (last (bids a')) = teamId" "amount (last (bids a')) = amt"
       "currentBid a' = amt" "currentBidder a' = Some teamId"
       "auctions ?s' = (auctions s)(auctionId \<mapsto> a')"
    by auto
  then have "leader_ok (players s) a'" by (simp add: leader_ok_def)
  then show ?thesis
    using assms a(6) by (simp add: leader_inv_def placeBid_players)
qed

lemma leader_inv_completeAuction:
  assumes "leader_inv s"
  shows "leader_inv (snd (completeAuction now auctionId s))"
proof (cases "auctions s auctionId")
  case None
  then show ?thesis using assms by (simp add: completeAuction_missing)
next
  case (Some a)
  show ?thesis
  proof (cases "auction_status a = live")
    case False
    then show ?thesis using assms Some by (simp add: completeAuction_not_live)
  next
    case True
    let ?s' = "snd (completeAuction now auctionId s)"
    have bp: "leader_ok (players ?s') x = leader_ok (players s) x" for x
      by (rule leader_ok_basePrice) (rule completeAuction_basePrice)
    have "leader_ok (players s) a" using assms Some by (simp add: leader_inv_def)
    then have "leader_ok (players s) (a\<lparr>auction_status := completed, endTime := Some now\<rparr>)"
      by (simp add: leader_ok_def)
    then show ?thesis
      using assms unfolding leader_inv_def bp completeAuction_live_auctions [OF Some True]
      by simp
  qed
qed

lemma increasing_le_last:
  fixes xs :: "rat list"
  shows "sorted_wrt (<) xs \<Longrightarrow> x \<in> set xs \<Longrightarrow> x \<le> last xs"
proof (induction xs)
  case Nil
  then show ?case by simp
next
  case (Cons y ys)
  show ?case
  proof (cases "ys = []")
    case True
    then show ?thesis using Cons.prems by simp
  next
    case False
    then have "last ys \<in> set ys" by simp
    then have "y < last ys" using Cons.prems(1) by simp
    moreover have "x \<le> last ys" if "x \<in> set ys"
      using Cons.IH Cons.prems(1) that by simp
    ultimately show ?thesis using Cons.prems(2) False by auto
  qed
qed

lemma leader_inv_exec: "leader_inv s \<Longrightarrow> leader_inv (exec x s)"
  by (cases x)
    (simp_all add: leader_inv_createAuction leader_inv_placeBid leader_inv_completeAuction)

lemma leader_inv_run: "leader_inv s \<Longrightarrow> leader_inv (run xs s)"
  by (induction xs arbitrary: s) (simp_all add: leader_inv_exec)

lemma leader_inv_initializeDatabase: "leader_inv (initializeDatabase rnd)"
  by (simp add: leader_inv_def seeded_auctions)

lemma exec_auction_cases:
  assumes "auctions (exec x s) k = Some a'"
  shows "auctions s k = Some a'
       \<or> bids a' = []
       \<or> (\<exists>a. auctions s k = Some a \<and> bids a' = bids a)
       \<or> (\<exists>a b. auctions s k = Some a \<and> bids a' = bids a @ [b] \<and> currentBid a < amount b
             \<and> bid_timestamp b = op_time x)"
proof (cases x)
  case (CreateAuction now playerId duration)
  show ?thesis
  proof (cases "players s playerId")
    case None
    then show ?thesis using assms CreateAuction by (simp add: createAuction_def)
  next
    case (Some p)
    show ?thesis
    proof (cases "player_status p = Unsold")
      case False
      then show ?thesis using assms CreateAuction Some by (simp add: createAuction_rejects)
    next
      case True
      from createAuction_accepts(2) [OF Some True, of now duration] assms CreateAuction
      show ?thesis by (auto split: if_splits)
    qed
  qed
next
  case (PlaceBid now auctionId teamId amt)
  show ?thesis
  proof (cases "fst (placeBid now auctionId teamId amt s)")
    case (Inl e)
    then show ?thesis using assms PlaceBid placeBid_failure(1) [OF Inl] by simp
  next
    case (Inr a2)
    from placeBid_success [OF Inr] obtain a and team :: Team where
      a: "auctions s auctionId = Some a" "currentBid a < amt"
         "bids a2 = bids a @
                     [\<lparr>bid_id = ''BID-'' @ string_of_nat now, bid_auctionId = auctionId,
                       bid_playerId = auction_playerId a, bid_teamId = teamId,
                       teamName = team_name team, amount = amt, bid_timestamp = now\<rparr>]"
         "auctions (snd (placeBid now auctionId teamId amt s)) = (auctions s)(auctionId \<mapsto> a2)"
      by auto
    show ?thesis
    proof (cases "k = auctionId")
      case False
      then show ?thesis using assms PlaceBid a(4) by simp
    next
      case True
      then have "a' = a2" using assms PlaceBid a(4) by simp
      then show ?thesis using a(1,2,3) True PlaceBid by simp
    qed
  qed
next
  case (SettleAuction now auctionId)
  show ?thesis
  proof (cases "auctions s auctionId")
    case None
    then show ?thesis using assms SettleAuction by (simp add: completeAuction_missing)
  next
    case (Some a)
    show ?thesis
    proof (cases "auction_status a = live")
      case False
      then show ?thesis using assms SettleAuction Some by (simp add: completeAuction_not_live)
    next
      case True
      from completeAuction_live_auctions [OF Some True, of now] assms SettleAuction Some
      show ?thesis by (auto split: if_splits)
    qed
  qed
qed

lemma amounts_inv_exec:
  assumes "amounts_inv s"
  shows "amounts_inv (exec x s)"
proof -
  have "bids_increasing a'" if h: "auctions (exec x s) k = Some a'" for k a'
  proof -
    from exec_auction_cases [OF h] consider
      "auctions s k = Some a'" | "bids a' = []"
      | a where "auctions s k = Some a" "bids a' = bids a"
      | a b where "auctions s k = Some a" "bids a' = bids a @ [b]" "currentBid a < amount b"
      by blast
    then show ?thesis
    proof cases
      case 1
      then show ?thesis using assms by (simp add: amounts_inv_def)
    next
      case 2
      then show ?thesis by (simp add: bids_increasing_def)
    next
      case 3
      then show ?thesis using assms by (simp add: amounts_inv_def bids_increasing_def)
    next
      case 4
      have old: "sorted_wrt (<) (map amount (bids a))" "leader_ok (players s) a"
        using assms 4(1) by (auto simp: amounts_inv_def leader_inv_def bids_increasing_def)
      have below: "y < amount b" if y: "y \<in> set (map amount (bids a))" for y
      proof -
        have ne: "bids a \<noteq> []" using y by auto
        have "y \<le> last (map amount (bids a))"
          using old(1) y by (rule increasing_le_last)
        also have "\<dots> = currentBid a" using old(2) ne by (simp add: leader_ok_def last_map)
        finally show ?thesis using 4(3) by simp
      qed
      show ?thesis
        using old(1) below by (auto simp: bids_increasing_def 4(2) sorted_wrt_append)
    qed
  qed
  then show ?thesis using assms leader_inv_exec [of s x] by (simp add: amounts_inv_def)
qed

lemma amounts_inv_run: "amounts_inv s \<Longrightarrow> amounts_inv (run xs s)"
  by (induction xs arbitrary: s) (simp_all add: amounts_inv_exec)

lemma amounts_inv_initializeDatabase: "amounts_inv (initializeDatabase rnd)"
  by (simp add: amounts_inv_def leader_inv_def seeded_auctions)

lemma clock_inv_exec:
  assumes "clock_inv c s" and "c \<le> op_time x"
  shows "clock_inv (op_time x) (exec x s)"
proof -
  have mono: "bids_chronological (op_time x) a" if "auctions s k = Some a" for k a
    using assms that by (fastforce simp: clock_inv_def bids_chronological_def)
  have "bids_chronological (op_time x) a'" if h: "auctions (exec x s) k = Some a'" for k a'
  proof -
    from exec_auction_cases [OF h] consider
      "auctions s k = Some a'" | "bids a' = []"
      | a where "auctions s k = Some a" "bids a' = bids a"
      | a b where "auctions s k = Some a" "bids a' = bids a @ [b]" "bid_timestamp b = op_time x"
      by blast
    then show ?thesis
    proof cases
      case 1
      then show ?thesis by (rule mono)
    next
      case 2
      then show ?thesis by (simp add: bids_chronological_def)
    next
      case 3
      then show ?thesis using mono [OF 3(1)] by (simp add: bids_chronological_def)
    next
      case 4
      then show ?thesis
        using mono [OF 4(1)] by (auto simp: bids_chronological_def sorted_append)
    qed
  qed
  then show ?thesis by (simp add: clock_inv_def)
qed

lemma clock_inv_run:
  "clock_inv c s \<Longrightarrow> sorted (c # map op_time xs) \<Longrightarrow> \<exists>c'. clock_inv c' (run xs s)"
proof (induction xs arbitrary: c s)
  case Nil
  then show ?case by auto
next
  case (Cons x xs)
  from Cons.prems have "clock_inv (op_time x) (exec x s)" by (simp add: clock_inv_exec)
  moreover from Cons.prems have "sorted (op_time x # map op_time xs)" by simp
  ultimately show ?case using Cons.IH by simp
qed

lemma clock_inv_initializeDatabase: "clock_inv 0 (initializeDatabase rnd)"
  by (simp add: clock_inv_def seeded_auctions)





lemma exec_bidLocks: "bidLocks s = Map.empty \<Longrightarrow> bidLocks (exec x s) = Map.empty"
  by (cases x) (simp_all add: createAuction_bidLocks placeBid_bidLocks completeAuction_bidLocks)

lemma reachable_bidLocks: "bidLocks (run xs (initializeDatabase rnd)) = Map.empty"
proof -
  have "bidLocks s = Map.empty \<Longrightarrow> bidLocks (run xs s) = Map.empty" for s
    by (induction xs arbitrary: s) (simp_all add: exec_bidLocks)
  then show ?thesis by (simp add: initializeDatabase_def)
qed

section \<open>The claims\<close>

text \<open>
  C1 (validation order of \<open>placeBid\<close>). With the lock of the auction free, the checks
  are made in the order: the auction exists, the auction is live, the team exists, the
  amount is above the current bid, the amount is within the remaining purse of the team.
  The first check that fails decides the error; when all pass the call succeeds. On every
  failure the teams, the players, the auctions and the activity log are the ones before
  the call.
\<close>

theorem placeBid_first_failure_wins:
  assumes "bidLocks s auctionId \<noteq> Some True"
  shows "(auctions s auctionId = None \<longrightarrow>
            fst (placeBid now auctionId teamId amt s) = Inl AuctionNotFound)
       \<and> (\<forall>a. auctions s auctionId = Some a \<and> auction_status a \<noteq> live \<longrightarrow>
            fst (placeBid now auctionId teamId amt s) = Inl AuctionNotActive)
       \<and> (\<forall>a. auctions s auctionId = Some a \<and> auction_status a = live \<and> teams s teamId = None \<longrightarrow>
            fst (placeBid now auctionId teamId amt s) = Inl TeamNotFound)
       \<and> (\<forall>a t. auctions s auctionId = Some a \<and> auction_status a = live \<and> teams s teamId = Some t
              \<and> \<not> amt > currentBid a \<longrightarrow>
            fst (placeBid now auctionId teamId amt s) = Inl BidTooLow)
       \<and> (\<forall>a t. auctions s auctionId = Some a \<and> auction_status a = live \<and> teams s teamId = Some t
              \<and> amt > currentBid a \<and> \<not> amt \<le> remainingPurse t \<longrightarrow>
            fst (placeBid now auctionId teamId amt s) = Inl InsufficientFunds)
       \<and> (\<forall>a t. auctions s auctionId = Some a \<and> auction_status a = live \<and> teams s teamId = Some t
              \<and> amt > currentBid a \<and> amt \<le> remainingPurse t \<longrightarrow>
            (\<exists>a'. fst (placeBid now auctionId teamId amt s) = Inr a'))
       \<and> (\<forall>e. fst (placeBid now auctionId teamId amt s) = Inl e \<longrightarrow>
            teams (snd (placeBid now auctionId teamId amt s)) = teams s
          \<and> players (snd (placeBid now auctionId teamId amt s)) = players s
          \<and> auctions (snd (placeBid now auctionId teamId amt s)) = auctions s
          \<and> activities (snd (placeBid now auctionId teamId amt s)) = activities s)"
  using assms
  by (auto simp: placeBid_def placeBid_try_def Let_def split: option.splits if_splits prod.splits)

theorem placeBid_first_failure_wins_witness:
  "bidLocks (run [CreateAuction 1 ''P001'' 60] (initializeDatabase (\<lambda>_. 0))) ''AUC-1'' \<noteq> Some True
   \<and> map_option auction_status
        (auctions (run [CreateAuction 1 ''P001'' 60] (initializeDatabase (\<lambda>_. 0))) ''AUC-1'') = Some live
   \<and> map_option currentBid
        (auctions (run [CreateAuction 1 ''P001'' 60] (initializeDatabase (\<lambda>_. 0))) ''AUC-1'') = Some (1 / 2)
   \<and> map_option remainingPurse
        (teams (run [CreateAuction 1 ''P001'' 60] (initializeDatabase (\<lambda>_. 0))) ''MI'') = Some 100
   \<and> fst (placeBid 2 ''AUC-1'' ''MI'' 101 (run [CreateAuction 1 ''P001'' 60] (initializeDatabase (\<lambda>_. 0))))
       = Inl InsufficientFunds
   \<and> auctions (snd (placeBid 2 ''AUC-1'' ''MI'' 101
                      (run [CreateAuction 1 ''P001'' 60] (initializeDatabase (\<lambda>_. 0)))))
       = auctions (run [CreateAuction 1 ''P001'' 60] (initializeDatabase (\<lambda>_. 0)))"
proof -
  define S where "S = run [CreateAuction 1 ''P001'' 60] (initializeDatabase (\<lambda>_. 0))"
  have lock: "bidLocks S ''AUC-1'' \<noteq> Some True"
    unfolding S_def by code_simp
  have st: "map_option auction_status (auctions S ''AUC-1'') = Some live"
    unfolding S_def by code_simp
  have cb: "map_option currentBid (auctions S ''AUC-1'') = Some (1 / 2)"
    unfolding S_def by code_simp
  have rp: "map_option remainingPurse (teams S ''MI'') = Some 100"
    unfolding S_def by code_simp
  from st cb obtain a where a: "auctions S ''AUC-1'' = Some a" "auction_status a = live"
    "currentBid a = 1 / 2" by auto
  from rp obtain t where t: "teams S ''MI'' = Some t" "remainingPurse t = 100" by auto
  note inst = placeBid_first_failure_wins [OF lock, of 2 "''MI''" 101]
  have r: "fst (placeBid 2 ''AUC-1'' ''MI'' 101 S) = Inl InsufficientFunds"
    using inst a t by simp
  have "auctions (snd (placeBid 2 ''AUC-1'' ''MI'' 101 S)) = auctions S"
    using inst r by blast
  with lock st cb rp r show ?thesis unfolding S_def by simp
qed



text \<open>
  C3 (purse conservation). The identity \<open>remainingPurse = totalPurse - sum of the sold
  prices of the roster\<close> does not hold in every reachable state. \<open>completeAuction\<close>
  subtracts doubles, and every subtraction rounds: after the team MI has won two players
  for the double 1.1 each, its remaining purse is \<open>(100 - 1.1) - 1.1\<close> as the source
  computes it, 97.80000000000001, which is neither the exact \<open>100 - (1.1 + 1.1)\<close> nor
  the 97.8 that the source's arithmetic gives for \<open>100 - (1.1 + 1.1)\<close>.
\<close>

theorem purse_conservation_counterexample:
  "map_option remainingPurse
     (teams (run [CreateAuction 1 ''P001'' 60, PlaceBid 2 ''AUC-1'' ''MI'' (double_round (11 / 10)),
                SettleAuction 3 ''AUC-1'', CreateAuction 4 ''P002'' 60,
                PlaceBid 5 ''AUC-4'' ''MI'' (double_round (11 / 10)), SettleAuction 6 ''AUC-4'']
           (initializeDatabase zero_draws)) ''MI'')
     = Some (1720515795143885 / 17592186044416)
   \<and> map_option
       (purse_identity
          (players (run [CreateAuction 1 ''P001'' 60, PlaceBid 2 ''AUC-1'' ''MI'' (double_round (11 / 10)),
                SettleAuction 3 ''AUC-1'', CreateAuction 4 ''P002'' 60,
                PlaceBid 5 ''AUC-4'' ''MI'' (double_round (11 / 10)), SettleAuction 6 ''AUC-4'']
           (initializeDatabase zero_draws))))
       (teams (run [CreateAuction 1 ''P001'' 60, PlaceBid 2 ''AUC-1'' ''MI'' (double_round (11 / 10)),
                SettleAuction 3 ''AUC-1'', CreateAuction 4 ''P002'' 60,
                PlaceBid 5 ''AUC-4'' ''MI'' (double_round (11 / 10)), SettleAuction 6 ''AUC-4'']
           (initializeDatabase zero_draws)) ''MI'')
     = Some False
   \<and> map_option
       (purse_identity_js
          (players (run [CreateAuction 1 ''P001'' 60, PlaceBid 2 ''AUC-1'' ''MI'' (double_round (11 / 10)),
                SettleAuction 3 ''AUC-1'', CreateAuction 4 ''P002'' 60,
                PlaceBid 5 ''AUC-4'' ''MI'' (double_round (11 / 10)), SettleAuction 6 ''AUC-4'']
           (initializeDatabase zero_draws))))
       (teams (run [CreateAuction 1 ''P001'' 60, PlaceBid 2 ''AUC-1'' ''MI'' (double_round (11 / 10)),
                SettleAuction 3 ''AUC-1'', CreateAuction 4 ''P002'' 60,
                PlaceBid 5 ''AUC-4'' ''MI'' (double_round (11 / 10)), SettleAuction 6 ''AUC-4'']
           (initializeDatabase zero_draws)) ''MI'')
     = Some False"
  by code_simp

text \<open>
  C3 as amended. In every state reached from the seeded store by a sequence of
  \<open>createAuction\<close>, \<open>placeBid\<close> and \<open>completeAuction\<close> calls, every player in the
  roster of a team has a sold price, and the remaining purse of the team is its total
  purse with these sold prices subtracted one after the other, in roster order, each
  difference rounded as the subtraction of the source rounds it.
\<close>

theorem purse_conservation_stepwise:
  "teams (run ops (initializeDatabase rnd)) t = Some team \<Longrightarrow>
   map_option (foldl number_sub (totalPurse team))
     (rosterSoldPrices (players (run ops (initializeDatabase rnd))) (team_players team))
   = Some (remainingPurse team)"
  using purse_inv_run [OF purse_inv_initializeDatabase, of ops rnd]
  unfolding purse_inv_def purse_conserved_def purse_stepwise_def by blast

theorem purse_conservation_stepwise_witness:
  "map_option remainingPurse
     (teams (run [CreateAuction 1 ''P001'' 60, PlaceBid 2 ''AUC-1'' ''MI'' (double_round (11 / 10)),
                SettleAuction 3 ''AUC-1'', CreateAuction 4 ''P002'' 60,
                PlaceBid 5 ''AUC-4'' ''MI'' (double_round (11 / 10)), SettleAuction 6 ''AUC-4'']
           (initializeDatabase zero_draws)) ''MI'')
     = Some (1720515795143885 / 17592186044416)
   \<and> (\<exists>team. teams (run [CreateAuction 1 ''P001'' 60, PlaceBid 2 ''AUC-1'' ''MI'' (double_round (11 / 10)),
                SettleAuction 3 ''AUC-1'', CreateAuction 4 ''P002'' 60,
                PlaceBid 5 ''AUC-4'' ''MI'' (double_round (11 / 10)), SettleAuction 6 ''AUC-4'']
           (initializeDatabase zero_draws)) ''MI'' = Some team
        \<and> map_option (foldl number_sub (totalPurse team))
             (rosterSoldPrices
                (players (run [CreateAuction 1 ''P001'' 60, PlaceBid 2 ''AUC-1'' ''MI'' (double_round (11 / 10)),
                SettleAuction 3 ''AUC-1'', CreateAuction 4 ''P002'' 60,
                PlaceBid 5 ''AUC-4'' ''MI'' (double_round (11 / 10)), SettleAuction 6 ''AUC-4'']
           (initializeDatabase zero_draws)))
                (team_players team))
            = Some (remainingPurse team))"
proof -
  define S where "S = run [CreateAuction 1 ''P001'' 60, PlaceBid 2 ''AUC-1'' ''MI'' (double_round (11 / 10)),
                SettleAuction 3 ''AUC-1'', CreateAuction 4 ''P002'' 60,
                PlaceBid 5 ''AUC-4'' ''MI'' (double_round (11 / 10)), SettleAuction 6 ''AUC-4'']
           (initializeDatabase zero_draws)"
  have r: "map_option remainingPurse (teams S ''MI'') = Some (1720515795143885 / 17592186044416)"
    unfolding S_def by code_simp
  from r obtain team where t: "teams S ''MI'' = Some team" by auto
  note inst = purse_conservation_stepwise [OF t [unfolded S_def]]
  show ?thesis using r t inst unfolding S_def by blast
qed

text \<open>
  C4 (purse bounds). The bound \<open>0 \<le> remainingPurse\<close> does not hold in every reachable
  state. The purse check of \<open>placeBid\<close> compares the amount with the purse at bid time
  only, and \<open>completeAuction\<close> subtracts without a check: a team that leads two live
  auctions with 60 each, out of a purse of 100, ends with a remaining purse of -20 after
  both are settled.
\<close>

theorem purse_negative_after_two_settlements:
  "map_option remainingPurse
     (teams (run [CreateAuction 1 ''P001'' 60, CreateAuction 2 ''P002'' 60,
                  PlaceBid 3 ''AUC-1'' ''MI'' 60, PlaceBid 4 ''AUC-2'' ''MI'' 60,
                  SettleAuction 5 ''AUC-1'', SettleAuction 6 ''AUC-2'']
               (initializeDatabase (\<lambda>_. 0))) ''MI'')
   = Some (- 20)"
  by code_simp

text \<open>
  C5 (settlement is guarded against repetition). The first \<open>completeAuction\<close> on a live
  auction returns it with status \<open>completed\<close> and stores it; a second call on the same
  auction returns \<open>null\<close> and leaves the whole store as the first call left it. So after
  both calls the winning team has \<open>currentBid\<close> taken off its purse once and the
  player appended to its roster once.
\<close>

theorem settle_twice:
  assumes "auctions s auctionId = Some a" and "auction_status a = live"
  shows "fst (completeAuction now auctionId s) =
           Some (a\<lparr>auction_status := completed, endTime := Some now\<rparr>)
       \<and> auctions (snd (completeAuction now auctionId s)) auctionId =
           Some (a\<lparr>auction_status := completed, endTime := Some now\<rparr>)
       \<and> completeAuction now' auctionId (snd (completeAuction now auctionId s)) =
           (None, snd (completeAuction now auctionId s))
       \<and> (\<forall>b team. currentBidder a = Some b \<and> b \<noteq> [] \<and> teams s b = Some team \<longrightarrow>
             teams (snd (completeAuction now' auctionId (snd (completeAuction now auctionId s)))) b =
               Some (team\<lparr>remainingPurse := number_sub (remainingPurse team) (currentBid a),
                           team_players := team_players team @ [auction_player a]\<rparr>))"
proof -
  let ?s1 = "snd (completeAuction now auctionId s)"
  let ?a1 = "a\<lparr>auction_status := completed, endTime := Some now\<rparr>"
  have first: "fst (completeAuction now auctionId s) = Some ?a1"
    using assms by (rule completeAuction_live_fst)
  have stored: "auctions ?s1 auctionId = Some ?a1"
    using completeAuction_live_auctions [OF assms, of now] by simp
  have second: "completeAuction now' auctionId ?s1 = (None, ?s1)"
    by (rule completeAuction_not_live [OF stored]) simp
  have purse: "teams (snd (completeAuction now' auctionId ?s1)) b =
      Some (team\<lparr>remainingPurse := number_sub (remainingPurse team) (currentBid a),
                  team_players := team_players team @ [auction_player a]\<rparr>)"
    if "currentBidder a = Some b" "b \<noteq> []" "teams s b = Some team" for b team
    using completeAuction_sold(1) [OF assms that, of now] second by simp
  from first stored second purse show ?thesis by blast
qed

theorem settle_twice_witness:
  "map_option (\<lambda>a. (auction_status a, currentBidder a, currentBid a))
     (auctions (run [CreateAuction 1 ''P001'' 60, PlaceBid 2 ''AUC-1'' ''MI'' 10]
                  (initializeDatabase (\<lambda>_. 0))) ''AUC-1'')
     = Some (live, Some ''MI'', 10)
   \<and> map_option (\<lambda>t. (remainingPurse t, team_players t))
       (teams (run [CreateAuction 1 ''P001'' 60, PlaceBid 2 ''AUC-1'' ''MI'' 10]
                 (initializeDatabase (\<lambda>_. 0))) ''MI'') = Some (100, [])
   \<and> fst (completeAuction 4 ''AUC-1''
            (snd (completeAuction 3 ''AUC-1''
                    (run [CreateAuction 1 ''P001'' 60, PlaceBid 2 ''AUC-1'' ''MI'' 10]
                       (initializeDatabase (\<lambda>_. 0)))))) = None
   \<and> map_option (\<lambda>t. (remainingPurse t, length (team_players t)))
       (teams (snd (completeAuction 4 ''AUC-1''
                (snd (completeAuction 3 ''AUC-1''
                    (run [CreateAuction 1 ''P001'' 60, PlaceBid 2 ''AUC-1'' ''MI'' 10]
                       (initializeDatabase (\<lambda>_. 0))))))) ''MI'') = Some (90, 1)"
proof -
  define S where "S = run [CreateAuction 1 ''P001'' 60, PlaceBid 2 ''AUC-1'' ''MI'' 10]
                  (initializeDatabase (\<lambda>_. 0))"
  have au: "map_option (\<lambda>a. (auction_status a, currentBidder a, currentBid a))
      (auctions S ''AUC-1'') = Some (live, Some ''MI'', 10)"
    unfolding S_def by code_simp
  have tm: "map_option (\<lambda>t. (remainingPurse t, team_players t)) (teams S ''MI'') = Some (100, [])"
    unfolding S_def by code_simp
  from au obtain a where a: "auctions S ''AUC-1'' = Some a" "auction_status a = live"
    "currentBidder a = Some ''MI''" "currentBid a = 10"
    by auto
  from tm obtain team where team: "teams S ''MI'' = Some team" "remainingPurse team = 100"
    "team_players team = []"
    by auto
  note inst = settle_twice [OF a(1,2), of 3 4]
  have "fst (completeAuction 4 ''AUC-1'' (snd (completeAuction 3 ''AUC-1'' S))) = None"
    using inst by simp
  moreover have "map_option (\<lambda>t. (remainingPurse t, length (team_players t)))
      (teams (snd (completeAuction 4 ''AUC-1'' (snd (completeAuction 3 ''AUC-1'' S)))) ''MI'')
      = Some (90, 1)"
  proof -
    from inst have "teams (snd (completeAuction 4 ''AUC-1'' (snd (completeAuction 3 ''AUC-1'' S))))
        ''MI'' = Some (team\<lparr>remainingPurse := number_sub (remainingPurse team) (currentBid a),
                           team_players := team_players team @ [auction_player a]\<rparr>)"
      using a(3) team(1) by blast
    moreover have "number_sub 100 10 = 90" by code_simp
    ultimately show ?thesis using a(4) team(2,3) by simp
  qed
  ultimately show ?thesis using au tm unfolding S_def by simp
qed

text \<open>
  C6 (monotonic bids). The timestamps of a bid list are not ordered in every reachable
  state. The timestamp of a bid is the reading of \<open>Date.now()\<close> at its acceptance, in
  milliseconds, and nothing in \<open>placeBid\<close> compares it with the earlier ones: two bids
  accepted in the same millisecond have equal timestamps, so the order is not strict, and
  when the clock is set back between two bids the later bid has the smaller timestamp.
\<close>

theorem monotonic_bids_counterexample:
  "map_option bid_timestamps
     (auctions (run [CreateAuction 1 ''P001'' 60, PlaceBid 2 ''AUC-1'' ''MI'' 10,
                     PlaceBid 2 ''AUC-1'' ''CSK'' 12]
                  (initializeDatabase zero_draws)) ''AUC-1'') = Some [2, 2]
   \<and> map_option timestamps_increasing
     (auctions (run [CreateAuction 1 ''P001'' 60, PlaceBid 2 ''AUC-1'' ''MI'' 10,
                     PlaceBid 2 ''AUC-1'' ''CSK'' 12]
                  (initializeDatabase zero_draws)) ''AUC-1'') = Some False
   \<and> map_option bid_timestamps
     (auctions (run [CreateAuction 1 ''P001'' 60, PlaceBid 5 ''AUC-1'' ''MI'' 10,
                     PlaceBid 3 ''AUC-1'' ''CSK'' 12]
                  (initializeDatabase zero_draws)) ''AUC-1'') = Some [5, 3]
   \<and> map_option timestamps_nondecreasing
     (auctions (run [CreateAuction 1 ''P001'' 60, PlaceBid 5 ''AUC-1'' ''MI'' 10,
                     PlaceBid 3 ''AUC-1'' ''CSK'' 12]
                  (initializeDatabase zero_draws)) ''AUC-1'') = Some False"
  by code_simp

text \<open>
  C6 as amended. Every auction of every state reached from the seeded store has a bid
  list whose amounts are strictly increasing; when the clock readings of the operations
  do not go backwards, the timestamps of the bid list are non-decreasing.
\<close>

theorem monotonic_bids:
  assumes "auctions (run ops (initializeDatabase rnd)) k = Some a"
  shows "sorted_wrt (<) (map amount (bids a))
       \<and> (sorted (map op_time ops) \<longrightarrow> sorted (map bid_timestamp (bids a)))"
proof
  have "amounts_inv (run ops (initializeDatabase rnd))"
    by (rule amounts_inv_run [OF amounts_inv_initializeDatabase])
  with assms show "sorted_wrt (<) (map amount (bids a))"
    by (auto simp: amounts_inv_def bids_increasing_def)
next
  show "sorted (map op_time ops) \<longrightarrow> sorted (map bid_timestamp (bids a))"
  proof
    assume "sorted (map op_time ops)"
    then have "sorted (0 # map op_time ops)" by simp
    from clock_inv_run [OF clock_inv_initializeDatabase this]
    obtain c where "clock_inv c (run ops (initializeDatabase rnd))" by blast
    with assms show "sorted (map bid_timestamp (bids a))"
      by (auto simp: clock_inv_def bids_chronological_def)
  qed
qed

theorem monotonic_bids_witness:
  "sorted (map op_time [CreateAuction 1 ''P001'' 60, PlaceBid 2 ''AUC-1'' ''MI'' 10,
                        PlaceBid 2 ''AUC-1'' ''CSK'' 12])
   \<and> map_option (\<lambda>a. map (\<lambda>b. (amount b, bid_timestamp b)) (bids a))
       (auctions (run [CreateAuction 1 ''P001'' 60, PlaceBid 2 ''AUC-1'' ''MI'' 10,
                       PlaceBid 2 ''AUC-1'' ''CSK'' 12] (initializeDatabase (\<lambda>_. 0))) ''AUC-1'')
       = Some [(10, 2), (12, 2)]
   \<and> (\<exists>a. auctions (run [CreateAuction 1 ''P001'' 60, PlaceBid 2 ''AUC-1'' ''MI'' 10,
                       PlaceBid 2 ''AUC-1'' ''CSK'' 12] (initializeDatabase (\<lambda>_. 0))) ''AUC-1''
            = Some a
          \<and> sorted_wrt (<) (map amount (bids a)) \<and> sorted (map bid_timestamp (bids a)))"
proof -
  define S where "S = run [CreateAuction 1 ''P001'' 60, PlaceBid 2 ''AUC-1'' ''MI'' 10,
                       PlaceBid 2 ''AUC-1'' ''CSK'' 12] (initializeDatabase (\<lambda>_. 0))"
  have clock: "sorted (map op_time [CreateAuction 1 ''P001'' 60, PlaceBid 2 ''AUC-1'' ''MI'' 10,
                        PlaceBid 2 ''AUC-1'' ''CSK'' 12])"
    by simp
  have au: "map_option (\<lambda>a. map (\<lambda>b. (amount b, bid_timestamp b)) (bids a))
      (auctions S ''AUC-1'') = Some [(10, 2), (12, 2)]"
    unfolding S_def by code_simp
  from au obtain a where a: "auctions S ''AUC-1'' = Some a" by auto
  note inst = monotonic_bids [OF a [unfolded S_def]]
  show ?thesis using clock au a inst unfolding S_def by blast
qed

text \<open>
  C7 (single leader). For every auction of every state reached from the seeded store:
  \<open>currentBidder\<close> is defined exactly when the bid list is non-empty; then it is the
  team of the last bid and \<open>currentBid\<close> is the amount of the last bid; when the bid
  list is empty, \<open>currentBid\<close> is the base price of the player of the auction.
\<close>

theorem single_leader:
  assumes "auctions (run ops (initializeDatabase rnd)) k = Some a"
  shows "(currentBidder a \<noteq> None \<longleftrightarrow> bids a \<noteq> [])
       \<and> (bids a \<noteq> [] \<longrightarrow>
            currentBidder a = Some (bid_teamId (last (bids a)))
          \<and> currentBid a = amount (last (bids a)))
       \<and> (bids a = [] \<longrightarrow>
            map_option basePrice
              (players (run ops (initializeDatabase rnd)) (auction_playerId a))
            = Some (currentBid a))"
  using leader_inv_run [OF leader_inv_initializeDatabase, of ops rnd] assms
  unfolding leader_inv_def leader_ok_def by blast

theorem single_leader_witness:
  "map_option (\<lambda>a. (currentBidder a, currentBid a, length (bids a)))
     (auctions (run [CreateAuction 1 ''P001'' 60, PlaceBid 2 ''AUC-1'' ''MI'' 10,
                     CreateAuction 3 ''P002'' 60] (initializeDatabase (\<lambda>_. 0))) ''AUC-1'')
     = Some (Some ''MI'', 10, 1)
   \<and> map_option (\<lambda>a. (currentBidder a, currentBid a, length (bids a)))
     (auctions (run [CreateAuction 1 ''P001'' 60, PlaceBid 2 ''AUC-1'' ''MI'' 10,
                     CreateAuction 3 ''P002'' 60] (initializeDatabase (\<lambda>_. 0))) ''AUC-3'')
     = Some (None, 1 / 2, 0)
   \<and> (\<exists>a. auctions (run [CreateAuction 1 ''P001'' 60, PlaceBid 2 ''AUC-1'' ''MI'' 10,
                     CreateAuction 3 ''P002'' 60] (initializeDatabase (\<lambda>_. 0))) ''AUC-1'' = Some a
          \<and> currentBidder a = Some (bid_teamId (last (bids a)))
          \<and> currentBid a = amount (last (bids a)))
   \<and> (\<exists>a. auctions (run [CreateAuction 1 ''P001'' 60, PlaceBid 2 ''AUC-1'' ''MI'' 10,
                     CreateAuction 3 ''P002'' 60] (initializeDatabase (\<lambda>_. 0))) ''AUC-3'' = Some a
          \<and> map_option basePrice
               (players (run [CreateAuction 1 ''P001'' 60, PlaceBid 2 ''AUC-1'' ''MI'' 10,
                     CreateAuction 3 ''P002'' 60] (initializeDatabase (\<lambda>_. 0))) (auction_playerId a))
             = Some (currentBid a))"
proof -
  define S where "S = run [CreateAuction 1 ''P001'' 60, PlaceBid 2 ''AUC-1'' ''MI'' 10,
                     CreateAuction 3 ''P002'' 60] (initializeDatabase (\<lambda>_. 0))"
  have au1: "map_option (\<lambda>a. (currentBidder a, currentBid a, length (bids a)))
      (auctions S ''AUC-1'') = Some (Some ''MI'', 10, 1)"
    unfolding S_def by code_simp
  have au3: "map_option (\<lambda>a. (currentBidder a, currentBid a, length (bids a)))
      (auctions S ''AUC-3'') = Some (None, 1 / 2, 0)"
    unfolding S_def by code_simp
  from au1 obtain a1 where a1: "auctions S ''AUC-1'' = Some a1" "bids a1 \<noteq> []" by force
  from au3 obtain a3 where a3: "auctions S ''AUC-3'' = Some a3" "bids a3 = []" by force
  note inst1 = single_leader [OF a1(1) [unfolded S_def]]
  note inst3 = single_leader [OF a3(1) [unfolded S_def]]
  have "currentBidder a1 = Some (bid_teamId (last (bids a1))) \<and>
      currentBid a1 = amount (last (bids a1))"
    using inst1 a1(2) by blast
  moreover have "map_option basePrice (players S (auction_playerId a3)) = Some (currentBid a3)"
    using inst3 a3(2) unfolding S_def by blast
  ultimately show ?thesis using au1 au3 a1(1) a3(1) unfolding S_def by blast
qed

text \<open>
  C8 (frame of a successful bid). A successful \<open>placeBid\<close> appends one bid with the given
  amount and team to the bid list of the auction, sets \<open>currentBid\<close> to the amount and
  \<open>currentBidder\<close> to the team, changes nothing else of the auction and no other
  auction, puts one activity of kind \<open>bid\<close> at the head of the log, returns the updated
  auction, and leaves the teams (purses and rosters) and the players as they were.
\<close>

theorem placeBid_success_frame:
  assumes "placeBid now auctionId teamId amt s = (Inr a', s')"
  shows "\<exists>a team.
           auctions s auctionId = Some a \<and> teams s teamId = Some team
         \<and> bids a' = bids a @
              [\<lparr>bid_id = ''BID-'' @ string_of_nat now, bid_auctionId = auctionId,
                bid_playerId = auction_playerId a, bid_teamId = teamId,
                teamName = team_name team, amount = amt, bid_timestamp = now\<rparr>]
         \<and> currentBid a' = amt \<and> currentBidder a' = Some teamId
         \<and> a' = a\<lparr>bids := bids a', currentBid := amt, currentBidder := Some teamId\<rparr>
         \<and> auctions s' = (auctions s)(auctionId \<mapsto> a')
         \<and> activities s' =
              \<lparr>act_id = ''ACT-'' @ string_of_nat now, act_type = Act_bid, act_timestamp = now,
               act_teamId = Some teamId, act_playerId = Some (auction_playerId a),
               act_amount = Some amt\<rparr>
              # (if length (activities s) < 100 then activities s else butlast (activities s))
         \<and> teams s' = teams s \<and> players s' = players s"
proof -
  have r: "fst (placeBid now auctionId teamId amt s) = Inr a'"
    and s': "s' = snd (placeBid now auctionId teamId amt s)"
    using assms by simp_all
  from placeBid_success [OF r] obtain a team where
    *: "auctions s auctionId = Some a" "teams s teamId = Some team"
       "a' = a\<lparr>bids := bids a @
                     [\<lparr>bid_id = ''BID-'' @ string_of_nat now, bid_auctionId = auctionId,
                       bid_playerId = auction_playerId a, bid_teamId = teamId,
                       teamName = team_name team, amount = amt, bid_timestamp = now\<rparr>],
                   currentBid := amt, currentBidder := Some teamId\<rparr>"
       "auctions s' = (auctions s)(auctionId \<mapsto> a')"
       "activities s' = activities (addActivity
               \<lparr>act_id = ''ACT-'' @ string_of_nat now, act_type = Act_bid, act_timestamp = now,
                act_teamId = Some teamId, act_playerId = Some (auction_playerId a),
                act_amount = Some amt\<rparr> s)"
    unfolding s' by blast
  have "teams s' = teams s" "players s' = players s"
    unfolding s' by (rule placeBid_teams, rule placeBid_players)
  with * show ?thesis
    by (intro exI [of _ a] exI [of _ team]) (simp add: activities_addActivity)
qed

theorem placeBid_success_frame_witness:
  "\<exists>a' s'. placeBid 2 ''AUC-1'' ''MI'' 10
              (run [CreateAuction 1 ''P001'' 60] (initializeDatabase (\<lambda>_. 0))) = (Inr a', s')
     \<and> currentBid a' = 10 \<and> currentBidder a' = Some ''MI''
     \<and> auctions s' ''AUC-1'' = Some a'
     \<and> teams s' = teams (run [CreateAuction 1 ''P001'' 60] (initializeDatabase (\<lambda>_. 0)))
     \<and> players s' = players (run [CreateAuction 1 ''P001'' 60] (initializeDatabase (\<lambda>_. 0)))"
proof -
  define S where "S = run [CreateAuction 1 ''P001'' 60] (initializeDatabase (\<lambda>_. 0))"
  have "(case fst (placeBid 2 ''AUC-1'' ''MI'' 10 S) of Inl e \<Rightarrow> False | Inr a' \<Rightarrow> True)"
    unfolding S_def by code_simp
  then obtain a' s' where r: "placeBid 2 ''AUC-1'' ''MI'' 10 S = (Inr a', s')"
    by (cases "placeBid 2 ''AUC-1'' ''MI'' 10 S") (auto split: sum.splits)
  note inst = placeBid_success_frame [OF r]
  have "currentBid a' = 10 \<and> currentBidder a' = Some ''MI'' \<and> auctions s' ''AUC-1'' = Some a'
      \<and> teams s' = teams S \<and> players s' = players S"
    using inst by auto
  with r show ?thesis unfolding S_def by blast
qed

text \<open>
  C9 (round trip). For a player with status \<open>Unsold\<close>, \<open>createAuction\<close> returns and
  stores a live auction whose current bid is the base price of the player and whose bid
  list is empty. Settling that auction at once returns it completed, sets the status of
  the player back to \<open>Unsold\<close> (with no team and no sold price), leaves every other
  player and every team (purse and roster) as before the creation, and puts one activity
  of kind \<open>auction_end\<close> at the head of the log.
\<close>

theorem create_then_settle_roundtrip:
  assumes "players s playerId = Some p" and "player_status p = Unsold"
  shows "\<exists>a s1 a2 s2.
           createAuction now playerId duration s = (Some a, s1)
         \<and> auction_status a = live \<and> currentBid a = basePrice p \<and> bids a = []
         \<and> auctions s1 (auction_id a) = Some a
         \<and> completeAuction now' (auction_id a) s1 = (Some a2, s2)
         \<and> auction_status a2 = completed
         \<and> players s2 playerId =
             Some (p\<lparr>player_status := Unsold, player_teamId := None, soldPrice := None\<rparr>)
         \<and> (\<forall>q. q \<noteq> playerId \<longrightarrow> players s2 q = players s q)
         \<and> teams s2 = teams s
         \<and> activities s2 =
              \<lparr>act_id = ''ACT-'' @ string_of_nat now', act_type = Act_auction_end,
               act_timestamp = now', act_teamId = None, act_playerId = Some playerId,
               act_amount = None\<rparr>
              # (if length (activities s1) < 100 then activities s1 else butlast (activities s1))"
proof -
  let ?a = "\<lparr>auction_id = ''AUC-'' @ string_of_nat now, auction_playerId = playerId,
             auction_player = playerId, currentBid = basePrice p, currentBidder = None,
             bids = [], auction_status = live, startTime = now, endTime = None,
             timerDuration = duration\<rparr>"
  let ?s1 = "snd (createAuction now playerId duration s)"
  let ?a2 = "?a\<lparr>auction_status := completed, endTime := Some now'\<rparr>"
  let ?s2 = "snd (completeAuction now' (auction_id ?a) ?s1)"
  note c = createAuction_accepts [OF assms, of now duration]
  have c1: "createAuction now playerId duration s = (Some ?a, ?s1)"
    using c(1) by (simp add: prod_eq_iff)
  have au: "auctions ?s1 (auction_id ?a) = Some ?a" using c(2) by simp
  have lv: "auction_status ?a = live" by simp
  have nb: "\<not> truthy (currentBidder ?a)" by (simp add: truthy_def)
  note u = completeAuction_unsold [OF au lv nb, of now']
  have s1: "completeAuction now' (auction_id ?a) ?s1 = (Some ?a2, ?s2)"
    using completeAuction_live_fst [OF au lv, of now'] by (simp add: prod_eq_iff)
  have pl: "players ?s2 = (players s)(playerId \<mapsto>
      p\<lparr>player_status := Unsold, player_teamId := None, soldPrice := None\<rparr>)"
    using u(2) c(3) by simp
  have tm: "teams ?s2 = teams s" using u(1) createAuction_teams by simp
  have ac: "activities ?s2 =
      \<lparr>act_id = ''ACT-'' @ string_of_nat now', act_type = Act_auction_end,
       act_timestamp = now', act_teamId = None, act_playerId = Some playerId,
       act_amount = None\<rparr>
      # (if length (activities ?s1) < 100 then activities ?s1 else butlast (activities ?s1))"
    using u(3) by (simp add: activities_addActivity)
  show ?thesis
    by (rule exI [of _ ?a], rule exI [of _ ?s1], rule exI [of _ ?a2], rule exI [of _ ?s2])
      (use c1 au s1 pl tm ac in simp)
qed

theorem create_then_settle_roundtrip_witness:
  "map_option (\<lambda>p. (player_status p, basePrice p))
     (players (initializeDatabase (\<lambda>_. 0)) ''P001'') = Some (Unsold, 1 / 2)
   \<and> (\<exists>a s1 a2 s2.
         createAuction 1 ''P001'' 60 (initializeDatabase (\<lambda>_. 0)) = (Some a, s1)
       \<and> auction_status a = live \<and> currentBid a = 1 / 2 \<and> bids a = []
       \<and> completeAuction 2 (auction_id a) s1 = (Some a2, s2)
       \<and> map_option player_status (players s2 ''P001'') = Some Unsold
       \<and> teams s2 = teams (initializeDatabase (\<lambda>_. 0))
       \<and> act_type (hd (activities s2)) = Act_auction_end)"
proof -
  have pl: "map_option (\<lambda>p. (player_status p, basePrice p))
      (players (initializeDatabase (\<lambda>_. 0)) ''P001'') = Some (Unsold, 1 / 2)"
    by code_simp
  then obtain p where p: "players (initializeDatabase (\<lambda>_. 0)) ''P001'' = Some p"
    "player_status p = Unsold" "basePrice p = 1 / 2"
    by auto
  from create_then_settle_roundtrip [OF p(1,2), of 1 60 2]
  obtain a s1 a2 s2 where
    "createAuction 1 ''P001'' 60 (initializeDatabase (\<lambda>_. 0)) = (Some a, s1)"
    "auction_status a = live" "currentBid a = basePrice p" "bids a = []"
    "completeAuction 2 (auction_id a) s1 = (Some a2, s2)"
    "players s2 ''P001'' =
       Some (p\<lparr>player_status := Unsold, player_teamId := None, soldPrice := None\<rparr>)"
    "teams s2 = teams (initializeDatabase (\<lambda>_. 0))"
    "activities s2 =
       \<lparr>act_id = ''ACT-'' @ string_of_nat 2, act_type = Act_auction_end, act_timestamp = 2,
        act_teamId = None, act_playerId = Some ''P001'', act_amount = None\<rparr>
       # (if length (activities s1) < 100 then activities s1 else butlast (activities s1))"
    by blast
  then have "createAuction 1 ''P001'' 60 (initializeDatabase (\<lambda>_. 0)) = (Some a, s1)
       \<and> auction_status a = live \<and> currentBid a = 1 / 2 \<and> bids a = []
       \<and> completeAuction 2 (auction_id a) s1 = (Some a2, s2)
       \<and> map_option player_status (players s2 ''P001'') = Some Unsold
       \<and> teams s2 = teams (initializeDatabase (\<lambda>_. 0))
       \<and> act_type (hd (activities s2)) = Act_auction_end"
    using p(3) by simp
  with pl show ?thesis by blast
qed

text \<open>
  C10 (unknown player at creation). For a player id that is not in the players
  collection, \<open>createAuction\<close> returns \<open>null\<close> and the store is unchanged: no auction
  is inserted, no player status changes and no activity is added.
\<close>

theorem createAuction_unknown_player:
  "players s playerId = None \<Longrightarrow> createAuction now playerId duration s = (None, s)"
  by (simp add: createAuction_def)

theorem createAuction_unknown_player_witness:
  "players (initializeDatabase (\<lambda>_. 0)) ''P101'' = None \<and>
   createAuction 1 ''P101'' 60 (initializeDatabase (\<lambda>_. 0)) = (None, initializeDatabase (\<lambda>_. 0))"
proof -
  have h: "players (initializeDatabase (\<lambda>_. 0)) ''P101'' = None" by code_simp
  show ?thesis using h createAuction_unknown_player [OF h] by simp
qed


end
